theory Spec2Isabelle
  imports Complex_Main
begin

section \<open>Values of the program\<close>

text \<open>
  The trade-execution layer of pulse-agent: \<^verbatim>\<open>lib/gasManager.ts\<close>,
  \<^verbatim>\<open>lib/uniswapTrading.ts\<close>, \<^verbatim>\<open>lib/simpleSwap.ts\<close> and \<^verbatim>\<open>lib/trading.ts\<close>.

  A JavaScript \<^verbatim>\<open>bigint\<close> is an \<^typ>\<open>int\<close>. Its division truncates toward zero, which
  HOL's \<open>div\<close> does not on negative numbers, so it is written out. Every divisor of the
  source is a non-zero literal.
\<close>

definition bigint_div :: "int \<Rightarrow> int \<Rightarrow> int" where
  "bigint_div a b = sgn a * sgn b * (\<bar>a\<bar> div \<bar>b\<bar>)"

text \<open>
  A JavaScript \<^verbatim>\<open>number\<close> is an IEEE 754 double. A finite double is a rational, so a
  number that holds a quantity (a balance in ETH, a multiplier, a fee in Gwei) is a
  \<^typ>\<open>rat\<close>, and a decimal literal or a product is rounded to the nearest double, a tie
  going to the even significand: \<open>roundToDouble x\<close> keeps 53 significant bits of \<open>x\<close>.
  \<open>binade x\<close> is the exponent \<open>e\<close> with \<open>2 ^ e \<le> x < 2 ^ (e + 1)\<close>. Overflow, subnormal
  numbers, infinities and \<^verbatim>\<open>NaN\<close> are not modelled: the quantities of the source lie far
  inside the range of the normal doubles. Comparison and \<^verbatim>\<open>Math.max\<close> are exact on
  doubles, and \<^verbatim>\<open>Math.floor\<close> is \<open>\<lfloor>_\<rfloor>\<close>.
\<close>

fun bitLength :: "nat \<Rightarrow> nat" where
  "bitLength n = (if n = 0 then 0 else Suc (bitLength (n div 2)))"

declare bitLength.simps [simp del]

definition binade :: "rat \<Rightarrow> int" where
  "binade x =
     (if 1 \<le> x then int (bitLength (nat \<lfloor>x\<rfloor>)) - 1
      else - int (bitLength (nat (\<lceil>1 / x\<rceil> - 1))))"

definition pow2 :: "int \<Rightarrow> rat" where
  "pow2 e = (if 0 \<le> e then 2 ^ nat e else 1 / 2 ^ nat (- e))"

definition roundHalfEven :: "rat \<Rightarrow> int" where
  "roundHalfEven y =
     (let f = \<lfloor>y\<rfloor>; r = y - of_int f in
      if r < 1 / 2 then f else if 1 / 2 < r then f + 1 else if even f then f else f + 1)"

definition roundToDouble :: "rat \<Rightarrow> rat" where
  "roundToDouble x =
     (if x = 0 then 0
      else let ulp = pow2 (binade \<bar>x\<bar> - 52)
           in sgn x * of_int (roundHalfEven (\<bar>x\<bar> / ulp)) * ulp)"

text \<open>The product \<^verbatim>\<open>a * b\<close> of two numbers.\<close>

definition number_times :: "rat \<Rightarrow> rat \<Rightarrow> rat" where
  "number_times a b = roundToDouble (a * b)"

text \<open>
  \<^verbatim>\<open>ethers.parseUnits(x.toString(), 'gwei')\<close> gives \<open>x\<close> Gwei in wei and throws when \<open>x\<close>
  has more than nine decimals; \<open>None\<close> is the throw.
\<close>

definition parseUnits_gwei :: "rat \<Rightarrow> int option" where
  "parseUnits_gwei x =
     (if of_int \<lfloor>x * 1000000000\<rfloor> = x * 1000000000 then Some \<lfloor>x * 1000000000\<rfloor> else None)"

subsection \<open>Error messages\<close>

text \<open>
  The message of an \<^verbatim>\<open>Error\<close> is a term: one constructor for each template string of the
  source, its arguments the values the template interpolates. So a message that embeds
  another (\<^verbatim>\<open>`After ${maxRetries} attempts: ${lastError.message}`\<close>) has it as a subterm.
  \<open>Thrown\<close> is an error raised by a collaborator (the RPC provider, a contract call,
  ethers), with its message.
\<close>

datatype err =
    Thrown string
  | GasEstimationFailed nat err
  | GasEstimationFailedUndefined nat
  | NoLiquidity string
  | CouldNotCalculateETH int
  | InsufficientETH int
  | InvalidTokenAddress string
  | ParseEtherError string
  | InsufficientBalance int string int
  | TransactionFailed string
  | TradeTooSmall string
  | GasEstimationWouldFail err
  | ConfirmationTimeout
  | ReceiptNotReceived
  | TransactionFailedOnChain string
  | AfterAttempts nat err
  | UnknownError
  | UnknownErrorAfterRetries
  | ExpectedEthereumNetwork string
  | EthereumTradingDisabled
  | NoRpcUrl string
  | PrivateKeyRequired
  | WalletAddressRequired
  | InsufficientETHBalance string rat
  | DexSwapFailed err
  | DexSwapFailedUndefined
  | UnsupportedNetworkType string

subsection \<open>Transactions and results\<close>

record swapParams =
  tokenIn :: string
  tokenOut :: string
  fee :: nat
  recipient :: string
  deadline :: int
  amountIn :: int
  amountOutMinimum :: int
  sqrtPriceLimitX96 :: int

text \<open>The \<^verbatim>\<open>txOptions\<close> object; its \<^verbatim>\<open>value\<close> is \<open>tx_value\<close>.\<close>

record txOptions =
  tx_value :: int
  tx_gasLimit :: int
  tx_maxFeePerGas :: "int option"
  tx_maxPriorityFeePerGas :: "int option"
  tx_gasPrice :: "int option"

text \<open>
  The two router methods the executors call: \<^verbatim>\<open>exactInputSingle(params)\<close> of the V3 router
  and \<^verbatim>\<open>swapExactETHForTokens(amountOutMin, path, to, deadline)\<close> of the V2 router.
\<close>

datatype router_call =
    ExactInputSingle swapParams
  | SwapExactETHForTokens int "string list" string int

record receipt =
  status :: "nat option"
  hash :: string

datatype amountText = AmountOf int | UnknownAmount

text \<open>
  \<^verbatim>\<open>UniswapTradeResult\<close> and \<^verbatim>\<open>SimpleSwapResult\<close> have the same fields. \<open>toTokenAmount\<close> is
  \<^verbatim>\<open>quote.toString()\<close> (\<open>AmountOf\<close>) or the string \<^verbatim>\<open>'unknown'\<close>.
\<close>

record SwapResult =
  success :: bool
  transactionHash :: "string option"
  toTokenAmount :: "amountText option"
  error :: "err option"

datatype positionStatus = Holding | Sold | Failed

record TradingPosition =
  position_id :: string
  position_token :: string
  amount :: rat
  purchasePrice :: rat
  purchaseTime :: int
  tweet :: string
  influencer :: string
  position_status :: positionStatus

subsection \<open>Effects\<close>

text \<open>
  What a run does to the outside is a list of events, in order: the network calls, the
  sleeps, the writes to the position store, the notifications, and those lines of the
  console output that the theorems below read.
\<close>

datatype logline =
    SimpleSwapAttempt nat nat string string
  | SimpleSwapAttemptFailed nat err
  | V2SwapAttempt nat nat string string
  | V2SwapAttemptFailed nat err
  | V3Failed "err option"
  | TryingV2Fallback
  | V2FallbackSucceeded
  | BothFailed
  | V3Error "err option"
  | V2Error "err option"
  | V2FallbackAlsoFailed err
  | V3ErrorWas "err option"
  | V2ErrorWas err

datatype event =
    Sleep nat
  | GetFeeData
  | GetBlock
  | GetBalance string
  | QuoteExactInputSingle string string nat int
  | EstimateGas router_call int
  | SendTransaction router_call txOptions
  | WaitForReceipt string
  | ConsoleLog logline
  | MarkTweetAsProcessed string
  | SavePosition TradingPosition
  | InfoToast string string
  | ErrorToast string err
  | TradeBuyToast string string "string option"
  | External string

text \<open>
  The outside world answers each call from the history of events so far, so an answer
  may change from one call to the next. \<open>Inl\<close> is a call that throws.
  \<open>waitReceipt\<close> is what \<^verbatim>\<open>tx.wait()\<close> settles to (\<open>None\<close> is a \<^verbatim>\<open>null\<close> receipt) and
  \<open>settlesInTime\<close> whether it does so before the five-minute timer the fallback venue
  races it against.
\<close>

record world =
  dateNow :: "event list \<Rightarrow> int"
  getFeeData :: "event list \<Rightarrow> err + int option"
  getBlockBaseFee :: "event list \<Rightarrow> err + int option"
  getBalance :: "event list \<Rightarrow> string \<Rightarrow> err + int"
  quoteExactInputSingle :: "event list \<Rightarrow> string \<Rightarrow> string \<Rightarrow> nat \<Rightarrow> int \<Rightarrow> err + int"
  estimateGas :: "event list \<Rightarrow> router_call \<Rightarrow> int \<Rightarrow> err + int"
  sendTransaction :: "event list \<Rightarrow> router_call \<Rightarrow> txOptions \<Rightarrow> err + string"
  waitReceipt :: "event list \<Rightarrow> string \<Rightarrow> err + receipt option"
  settlesInTime :: "event list \<Rightarrow> string \<Rightarrow> bool"

text \<open>
  An asynchronous function of the source is a function from the history to its outcome
  (\<open>Inl\<close> the error it throws, \<open>Inr\<close> the value it returns) and the events it adds.
\<close>

type_synonym 'a io = "event list \<Rightarrow> (err + 'a) \<times> event list"

definition io_return :: "'a \<Rightarrow> 'a io" where
  "io_return x h = (Inr x, [])"

definition io_throw :: "err \<Rightarrow> 'a io" where
  "io_throw e h = (Inl e, [])"

definition io_emit :: "event \<Rightarrow> unit io" where
  "io_emit ev h = (Inr (), [ev])"

definition io_call :: "event \<Rightarrow> (event list \<Rightarrow> err + 'a) \<Rightarrow> 'a io" where
  "io_call ev answer h = (answer h, [ev])"

definition io_bind :: "'a io \<Rightarrow> ('a \<Rightarrow> 'b io) \<Rightarrow> 'b io" where
  "io_bind m f h =
     (case m h of
        (Inl e, es) \<Rightarrow> (Inl e, es)
      | (Inr x, es) \<Rightarrow> (case f x (h @ es) of (r, es') \<Rightarrow> (r, es @ es')))"

definition io_catch :: "'a io \<Rightarrow> (err \<Rightarrow> 'a io) \<Rightarrow> 'a io" where
  "io_catch m handler h =
     (case m h of
        (Inr x, es) \<Rightarrow> (Inr x, es)
      | (Inl e, es) \<Rightarrow> (case handler e (h @ es) of (r, es') \<Rightarrow> (r, es @ es')))"

definition io_some :: "'a option \<Rightarrow> err \<Rightarrow> 'a io" where
  "io_some x e = (case x of None \<Rightarrow> io_throw e | Some v \<Rightarrow> io_return v)"

definition io_of :: "err + 'a \<Rightarrow> 'a io" where
  "io_of r = (case r of Inl e \<Rightarrow> io_throw e | Inr v \<Rightarrow> io_return v)"

definition io_when :: "bool \<Rightarrow> unit io \<Rightarrow> unit io" where
  "io_when c m = (if c then m else io_return ())"

section \<open>lib/gasManager.ts\<close>

datatype urgency = Standard | Fast | Rapid

record NetworkGasSettings =
  isMainnet :: bool
  chainId :: int
  supports1559 :: bool
  baseFeeMultiplier :: rat
  priorityFeeGwei :: rat

text \<open>\<open>txType\<close> is the field \<^verbatim>\<open>type\<close>: 0 for legacy, 2 for EIP-1559.\<close>

record GasConfig =
  gasLimit :: int
  maxFeePerGas :: "int option"
  maxPriorityFeePerGas :: "int option"
  gasPrice :: "int option"
  txType :: "nat option"

definition gwei :: "int \<Rightarrow> int" where
  "gwei n = n * 1000000000"

text \<open>
  The multipliers of the gas manager (1, 1.1, 1.2, 1.5, 2, 3) enter the fees only through
  \<^verbatim>\<open>Math.floor(m * 100)\<close>, which on doubles is the same integer as on the decimal
  fractions (lemma \<open>multiplier_percent\<close> below), and the priority fees only through their
  decimal string; so this section writes them as the decimal fractions.
\<close>

definition getUrgencyMultiplier :: "NetworkGasSettings \<Rightarrow> urgency \<Rightarrow> rat" where
  "getUrgencyMultiplier s u =
     (if isMainnet s
      then (case u of Standard \<Rightarrow> 12 / 10 | Fast \<Rightarrow> 2 | Rapid \<Rightarrow> 3)
      else (case u of Standard \<Rightarrow> 1 | Fast \<Rightarrow> 15 / 10 | Rapid \<Rightarrow> 2))"

text \<open>\<^verbatim>\<open>x || d\<close> on an optional bigint: \<^verbatim>\<open>null\<close>, \<^verbatim>\<open>undefined\<close> and \<^verbatim>\<open>0n\<close> give \<open>d\<close>.\<close>

definition bigint_or :: "int option \<Rightarrow> int \<Rightarrow> int" where
  "bigint_or x d = (case x of None \<Rightarrow> d | Some v \<Rightarrow> if v = 0 then d else v)"

definition getLegacyGasPrice :: "NetworkGasSettings \<Rightarrow> world \<Rightarrow> urgency \<Rightarrow> int io" where
  "getLegacyGasPrice s w u =
     io_catch
       (io_bind (io_call GetFeeData (getFeeData w)) (\<lambda>feeDataGasPrice.
          let basePrice = bigint_or feeDataGasPrice (gwei 20);
              multiplier = getUrgencyMultiplier s u;
              adjustedPrice = bigint_div (basePrice * \<lfloor>multiplier * 100\<rfloor>) 100;
              minGasPrice = (if isMainnet s then gwei 1 else 100000000)
          in io_return (if adjustedPrice < minGasPrice then minGasPrice else adjustedPrice)))
       (\<lambda>e. io_return (if isMainnet s then gwei 10 else gwei 2))"

definition getEIP1559FeeData :: "NetworkGasSettings \<Rightarrow> world \<Rightarrow> urgency \<Rightarrow> (int \<times> int) io" where
  "getEIP1559FeeData s w u =
     io_catch
       (io_bind (io_call GetFeeData (getFeeData w)) (\<lambda>feeData.
        io_bind (io_call GetBlock (getBlockBaseFee w)) (\<lambda>latestBaseFee.
          let baseFee = bigint_or latestBaseFee (gwei 10) in
          (case parseUnits_gwei (priorityFeeGwei s) of
             None \<Rightarrow> io_throw (Thrown ''parseUnits'')
           | Some basePriorityFee \<Rightarrow>
               let urgencyMultiplier = getUrgencyMultiplier s u;
                   maxPriorityFeePerGas' =
                     bigint_div (basePriorityFee * \<lfloor>urgencyMultiplier * 100\<rfloor>) 100;
                   maxFeePerGas' =
                     bigint_div (baseFee * \<lfloor>baseFeeMultiplier s * 100\<rfloor>) 100 + maxPriorityFeePerGas';
                   minMaxFee = (if isMainnet s then gwei 5 else 100000000);
                   minPriorityFee = (if isMainnet s then gwei 1 else 10000000)
               in io_return
                    (if maxFeePerGas' < minMaxFee then minMaxFee else maxFeePerGas',
                     if maxPriorityFeePerGas' < minPriorityFee then minPriorityFee
                     else maxPriorityFeePerGas')))))
       (\<lambda>e. io_return
              (if isMainnet s then gwei 15 else gwei 3,
               if isMainnet s then gwei 2 else 200000000))"

definition getGasConfig :: "NetworkGasSettings \<Rightarrow> world \<Rightarrow> int \<Rightarrow> urgency \<Rightarrow> GasConfig io" where
  "getGasConfig s w estimatedGas u =
     (let gasLimit' =
            (if isMainnet s
             then (let bufferedGas = bigint_div (estimatedGas * 120) 100;
                       minimumGas = 150000
                   in if bufferedGas > minimumGas then bufferedGas else minimumGas)
             else (let bufferedGas = bigint_div (estimatedGas * 120) 100;
                       minimumGas = 100000
                   in if bufferedGas > minimumGas then bufferedGas else minimumGas))
      in if \<not> supports1559 s
         then io_bind (getLegacyGasPrice s w u) (\<lambda>gasPrice'.
                io_return \<lparr>gasLimit = gasLimit', maxFeePerGas = None,
                           maxPriorityFeePerGas = None, gasPrice = Some gasPrice',
                           txType = Some 0\<rparr>)
         else io_bind (getEIP1559FeeData s w u) (\<lambda>feeData.
                io_return \<lparr>gasLimit = gasLimit', maxFeePerGas = Some (fst feeData),
                           maxPriorityFeePerGas = Some (snd feeData), gasPrice = None,
                           txType = Some 2\<rparr>))"

text \<open>
  \<^verbatim>\<open>estimateGasWithRetry(contract, method, args, overrides, retries)\<close>: the loop over
  \<^verbatim>\<open>i = 0 .. retries - 1\<close>, with \<^verbatim>\<open>lastError\<close>. The contract call is \<open>c\<close> and the override
  \<^verbatim>\<open>{ value }\<close> is \<open>v\<close>.
\<close>

function estimateGasLoop ::
  "world \<Rightarrow> router_call \<Rightarrow> int \<Rightarrow> nat \<Rightarrow> nat \<Rightarrow> err option \<Rightarrow> int io" where
  "estimateGasLoop w c v retries i lastError =
     (if i < retries
      then io_catch (io_call (EstimateGas c v) (\<lambda>h. estimateGas w h c v))
             (\<lambda>e. io_bind (io_when (i < retries - 1) (io_emit (Sleep (2 ^ i * 1000))))
                     (\<lambda>_. estimateGasLoop w c v retries (Suc i) (Some e)))
      else io_throw (case lastError of
                       None \<Rightarrow> GasEstimationFailedUndefined retries
                     | Some e \<Rightarrow> GasEstimationFailed retries e))"
  by pat_completeness auto
termination
  by (relation "measure (\<lambda>(w, c, v, retries, i, lastError). retries - i)") auto

declare estimateGasLoop.simps [simp del]

definition estimateGasWithRetry :: "world \<Rightarrow> router_call \<Rightarrow> int \<Rightarrow> nat \<Rightarrow> int io" where
  "estimateGasWithRetry w c v retries = estimateGasLoop w c v retries 0 None"

definition createGasManager :: "int \<Rightarrow> NetworkGasSettings" where
  "createGasManager chainId' =
     (if chainId' = 1 then
        \<lparr>isMainnet = True, chainId = 1, supports1559 = True,
         baseFeeMultiplier = 12 / 10, priorityFeeGwei = 2\<rparr>
      else if chainId' = 11155111 then
        \<lparr>isMainnet = False, chainId = 11155111, supports1559 = True,
         baseFeeMultiplier = 12 / 10, priorityFeeGwei = 1 / 10\<rparr>
      else if chainId' = 8453 then
        \<lparr>isMainnet = True, chainId = 8453, supports1559 = True,
         baseFeeMultiplier = 12 / 10, priorityFeeGwei = 1 / 100\<rparr>
      else if chainId' = 84532 then
        \<lparr>isMainnet = False, chainId = 84532, supports1559 = True,
         baseFeeMultiplier = 11 / 10, priorityFeeGwei = 1 / 1000\<rparr>
      else
        \<lparr>isMainnet = False, chainId = chainId', supports1559 = True,
         baseFeeMultiplier = 12 / 10, priorityFeeGwei = 1\<rparr>)"

section \<open>lib/uniswapTrading.ts\<close>

text \<open>
  Functions of ethers and of JavaScript that touch no network are parameters of the
  model: \<^verbatim>\<open>ethers.isAddress\<close>; \<^verbatim>\<open>ethers.parseEther\<close> on an amount string (\<open>None\<close> when it
  throws); \<^verbatim>\<open>ethers.formatEther\<close>; \<^verbatim>\<open>Number.prototype.toString\<close>,
  \<^verbatim>\<open>Number.prototype.toFixed\<close> (the number, then the count of decimals), \<^verbatim>\<open>parseFloat\<close> and
  \<^verbatim>\<open>String.prototype.toUpperCase\<close>.
\<close>

record library =
  isAddress :: "string \<Rightarrow> bool"
  parseEther :: "string \<Rightarrow> int option"
  formatEther :: "int \<Rightarrow> string"
  numberToString :: "rat \<Rightarrow> string"
  toFixed :: "rat \<Rightarrow> nat \<Rightarrow> string"
  parseFloat :: "string \<Rightarrow> rat"
  toUpperCase :: "string \<Rightarrow> string"

text \<open>
  A trader object (\<^verbatim>\<open>UniswapTrader\<close> or \<^verbatim>\<open>SimpleSwapper\<close>): the address of its signer, an
  \<^verbatim>\<open>ethers.Wallet\<close>, which \<^verbatim>\<open>getAddress()\<close> returns without a network call, and the settings
  of its gas manager (those of chain 1 until \<^verbatim>\<open>initializeNetwork\<close> has replaced them).
\<close>

record trader =
  signerAddress :: string
  gasSettings :: NetworkGasSettings

definition WETH_ADDRESS :: string where
  "WETH_ADDRESS = ''0xC02aaA39b223FE8D0A0e5C4F27eAD9083C756Cc2''"

definition io_read :: "(event list \<Rightarrow> 'a) \<Rightarrow> 'a io" where
  "io_read f h = (Inr (f h), [])"

definition getQuote :: "world \<Rightarrow> string \<Rightarrow> string \<Rightarrow> nat \<Rightarrow> int \<Rightarrow> int io" where
  "getQuote w tokenIn' tokenOut' fee' amountIn' =
     io_call (QuoteExactInputSingle tokenIn' tokenOut' fee' amountIn')
       (\<lambda>h. quoteExactInputSingle w h tokenIn' tokenOut' fee' amountIn')"

text \<open>
  Line 408, \<^verbatim>\<open>(quote * BigInt(100 - slippagePercent)) / BigInt(100)\<close>, as a function of
  the local constant \<^verbatim>\<open>slippagePercent\<close>, which \<^verbatim>\<open>findBestFeeAndQuote\<close> sets to 5.
\<close>

definition minOutput :: "int \<Rightarrow> int \<Rightarrow> int" where
  "minOutput quote' slippagePercent = bigint_div (quote' * (100 - slippagePercent)) 100"

record feeQuote =
  fq_fee :: nat
  quote :: int
  amountOutMin :: int

text \<open>The loop of \<^verbatim>\<open>findBestFeeAndQuote\<close> over the fee tiers that are left.\<close>

fun findBestFeeAndQuote_from :: "world \<Rightarrow> string \<Rightarrow> int \<Rightarrow> nat list \<Rightarrow> feeQuote io" where
  "findBestFeeAndQuote_from w tokenAddress ethAmountWei [] =
     io_throw (NoLiquidity tokenAddress)"
| "findBestFeeAndQuote_from w tokenAddress ethAmountWei (fee' # feeTiers) =
     io_catch
       (io_bind (getQuote w WETH_ADDRESS tokenAddress fee' ethAmountWei) (\<lambda>quote'.
          let slippagePercent = 5;
              amountOutMin' = minOutput quote' slippagePercent
          in io_return \<lparr>fq_fee = fee', quote = quote', amountOutMin = amountOutMin'\<rparr>))
       (\<lambda>e. findBestFeeAndQuote_from w tokenAddress ethAmountWei feeTiers)"

definition findBestFeeAndQuote :: "world \<Rightarrow> string \<Rightarrow> int \<Rightarrow> feeQuote io" where
  "findBestFeeAndQuote w tokenAddress ethAmountWei =
     findBestFeeAndQuote_from w tokenAddress ethAmountWei [3000, 500, 10000]"

text \<open>
  The binary search of \<^verbatim>\<open>calculateEthForTokenAmount\<close>: \<open>n\<close> iterations are left, the state
  is \<^verbatim>\<open>low\<close>, \<^verbatim>\<open>high\<close> and \<^verbatim>\<open>bestEthAmount\<close>.
\<close>

fun ethSearch :: "world \<Rightarrow> string \<Rightarrow> int \<Rightarrow> nat \<Rightarrow> nat \<Rightarrow> int \<Rightarrow> int \<Rightarrow> int \<Rightarrow> int io" where
  "ethSearch w tokenAddress targetTokenAmount fee' 0 low high bestEthAmount =
     io_return bestEthAmount"
| "ethSearch w tokenAddress targetTokenAmount fee' (Suc n) low high bestEthAmount =
     (let mid = bigint_div (low + high) 2 in
      io_bind
        (io_catch
           (io_bind (getQuote w WETH_ADDRESS tokenAddress fee' mid) (\<lambda>quote'.
              io_return (if quote' \<ge> targetTokenAmount
                         then (low, mid - 1, mid)
                         else (mid + 1, high, bestEthAmount))))
           (\<lambda>e. io_return (mid + 1, high, bestEthAmount)))
        (\<lambda>(low', high', best'). ethSearch w tokenAddress targetTokenAmount fee' n low' high' best'))"

fun calculateEthForTokenAmount_from ::
  "world \<Rightarrow> string \<Rightarrow> int \<Rightarrow> nat list \<Rightarrow> (int \<times> nat) io" where
  "calculateEthForTokenAmount_from w tokenAddress targetTokenAmount [] =
     io_throw (CouldNotCalculateETH targetTokenAmount)"
| "calculateEthForTokenAmount_from w tokenAddress targetTokenAmount (fee' # feeTiers) =
     io_catch
       (io_bind
          (ethSearch w tokenAddress targetTokenAmount fee' 20
             1000000000000000 100000000000000000 100000000000000000)
          (\<lambda>bestEthAmount. io_return (bestEthAmount, fee')))
       (\<lambda>e. calculateEthForTokenAmount_from w tokenAddress targetTokenAmount feeTiers)"

definition calculateEthForTokenAmount :: "world \<Rightarrow> string \<Rightarrow> int \<Rightarrow> (int \<times> nat) io" where
  "calculateEthForTokenAmount w tokenAddress targetTokenAmount =
     calculateEthForTokenAmount_from w tokenAddress targetTokenAmount [3000, 500, 10000]"

record safeTrade =
  tradeAmount :: int
  st_fee :: nat
  gasReserve :: int

text \<open>
  Lines 480 to 486 of \<^verbatim>\<open>calculateSafeTradeAmount\<close>: the gas cost of the configuration plus
  \<^verbatim>\<open>parseEther('0.0002')\<close>.
\<close>

definition totalReserve :: "GasConfig \<Rightarrow> int" where
  "totalReserve gasConfig =
     (let maxGasCost =
            gasLimit gasConfig * bigint_or (maxFeePerGas gasConfig) (bigint_or (gasPrice gasConfig) 0);
          safeBuffer = 200000000000000
      in maxGasCost + safeBuffer)"

text \<open>
  \<open>targetTokenAmount\<close> is optional; \<^verbatim>\<open>if (targetTokenAmount)\<close> is false for \<^verbatim>\<open>undefined\<close> and
  for \<^verbatim>\<open>0n\<close>.
\<close>

definition calculateSafeTradeAmount ::
  "trader \<Rightarrow> world \<Rightarrow> string \<Rightarrow> int \<Rightarrow> int option \<Rightarrow> safeTrade io" where
  "calculateSafeTradeAmount t w tokenAddress availableETH targetTokenAmount =
     (let estimatedGas = 200000 in
      io_bind (getGasConfig (gasSettings t) w estimatedGas Standard) (\<lambda>gasConfig.
        if availableETH \<le> totalReserve gasConfig
        then io_throw (InsufficientETH (totalReserve gasConfig))
        else
          (let maxTradeAmount = availableETH - totalReserve gasConfig in
           if bigint_or targetTokenAmount 0 \<noteq> 0
           then io_bind (calculateEthForTokenAmount w tokenAddress (bigint_or targetTokenAmount 0))
                  (\<lambda>(ethNeeded, fee').
                     if ethNeeded > maxTradeAmount
                     then io_return \<lparr>tradeAmount = maxTradeAmount, st_fee = fee',
                                      gasReserve = totalReserve gasConfig\<rparr>
                     else io_return \<lparr>tradeAmount = ethNeeded, st_fee = fee',
                                      gasReserve = totalReserve gasConfig\<rparr>)
           else io_bind (findBestFeeAndQuote w tokenAddress maxTradeAmount) (\<lambda>q.
                  io_return \<lparr>tradeAmount = maxTradeAmount, st_fee = fq_fee q,
                             gasReserve = totalReserve gasConfig\<rparr>))))"

text \<open>
  The three retry loops of the source (\<^verbatim>\<open>swapEthForTokenSimple\<close>, \<^verbatim>\<open>swapEthForTokenInternal\<close>
  and \<^verbatim>\<open>SimpleSwapper.swapEthForToken\<close>) have one shape:
  \<^verbatim>\<open>for (attempt = 1; attempt <= maxRetries; attempt++) { try { ...; return result }
    catch (error) { lastError = error; ... } } return failure(lastError)\<close>.
  \<open>body\<close> is the \<^verbatim>\<open>try\<close> block, \<open>onError\<close> the rest of the \<^verbatim>\<open>catch\<close> block, \<open>giveUp\<close> the
  result after the loop.
\<close>

function retryLoop ::
  "nat \<Rightarrow> (nat \<Rightarrow> SwapResult io) \<Rightarrow> (nat \<Rightarrow> err \<Rightarrow> unit io) \<Rightarrow> (err option \<Rightarrow> SwapResult)
     \<Rightarrow> nat \<Rightarrow> err option \<Rightarrow> SwapResult io" where
  "retryLoop maxRetries body onError giveUp attempt lastError =
     (if attempt \<le> maxRetries
      then io_catch (body attempt)
             (\<lambda>e. io_bind (onError attempt e)
                     (\<lambda>_. retryLoop maxRetries body onError giveUp (Suc attempt) (Some e)))
      else io_return (giveUp lastError))"
  by pat_completeness auto
termination
  by (relation "measure (\<lambda>(maxRetries, body, onError, giveUp, attempt, lastError).
        maxRetries + 1 - attempt)") auto

declare retryLoop.simps [simp del]

definition txOptionsOf :: "int \<Rightarrow> GasConfig \<Rightarrow> txOptions" where
  "txOptionsOf v gasConfig =
     (if txType gasConfig = Some 2
      then \<lparr>tx_value = v, tx_gasLimit = gasLimit gasConfig,
            tx_maxFeePerGas = maxFeePerGas gasConfig,
            tx_maxPriorityFeePerGas = maxPriorityFeePerGas gasConfig,
            tx_gasPrice = None\<rparr>
      else \<lparr>tx_value = v, tx_gasLimit = gasLimit gasConfig,
            tx_maxFeePerGas = None, tx_maxPriorityFeePerGas = None,
            tx_gasPrice = gasPrice gasConfig\<rparr>)"

text \<open>The \<^verbatim>\<open>try\<close> block of \<^verbatim>\<open>swapEthForTokenSimple\<close>, lines 550 to 630.\<close>

definition swapEthForTokenSimple_try ::
  "library \<Rightarrow> trader \<Rightarrow> world \<Rightarrow> string \<Rightarrow> string \<Rightarrow> rat \<Rightarrow> nat \<Rightarrow> nat \<Rightarrow> SwapResult io" where
  "swapEthForTokenSimple_try lib t w tokenAddress ethAmount slippage maxRetries attempt =
     io_bind (io_emit (ConsoleLog (SimpleSwapAttempt attempt maxRetries ethAmount tokenAddress))) (\<lambda>_.
     if \<not> isAddress lib tokenAddress then io_throw (InvalidTokenAddress tokenAddress)
     else
       (let recipient' = signerAddress t in
        case parseEther lib ethAmount of
          None \<Rightarrow> io_throw (ParseEtherError ethAmount)
        | Some ethAmountWei \<Rightarrow>
     io_bind (io_call (GetBalance recipient') (\<lambda>h. getBalance w h recipient')) (\<lambda>balance.
     if balance < ethAmountWei + 800000000000000
     then io_throw (InsufficientBalance balance ethAmount (ethAmountWei + 800000000000000))
     else
     io_bind (io_read (dateNow w)) (\<lambda>now.
       let deadline' = now div 1000 + 600 in
     io_bind (findBestFeeAndQuote w tokenAddress ethAmountWei) (\<lambda>q.
       let swapParams' =
             \<lparr>tokenIn = WETH_ADDRESS, tokenOut = tokenAddress, fee = fq_fee q,
              recipient = recipient', deadline = deadline', amountIn = ethAmountWei,
              amountOutMinimum = amountOutMin q, sqrtPriceLimitX96 = 0\<rparr> in
     io_bind (estimateGasWithRetry w (ExactInputSingle swapParams') ethAmountWei 1) (\<lambda>gasEstimate.
     io_bind (getGasConfig (gasSettings t) w gasEstimate Standard) (\<lambda>gasConfig.
       let txOptions' = txOptionsOf ethAmountWei gasConfig in
     io_bind (io_call (SendTransaction (ExactInputSingle swapParams') txOptions')
                (\<lambda>h. sendTransaction w h (ExactInputSingle swapParams') txOptions')) (\<lambda>txHash.
     io_bind (io_call (WaitForReceipt txHash) (\<lambda>h. waitReceipt w h txHash)) (\<lambda>receipt'.
       case receipt' of
         None \<Rightarrow> io_throw (TransactionFailed txHash)
       | Some r \<Rightarrow>
           if status r = Some 0 then io_throw (TransactionFailed txHash)
           else io_return \<lparr>success = True, transactionHash = Some (hash r),
                            toTokenAmount = Some (AmountOf (quote q)), error = None\<rparr>)))))))))"

definition swapEthForTokenSimple ::
  "library \<Rightarrow> trader \<Rightarrow> world \<Rightarrow> string \<Rightarrow> string \<Rightarrow> rat \<Rightarrow> SwapResult io" where
  "swapEthForTokenSimple lib t w tokenAddress ethAmount slippage =
     (let maxRetries = 2 in
      retryLoop maxRetries
        (swapEthForTokenSimple_try lib t w tokenAddress ethAmount slippage maxRetries)
        (\<lambda>attempt e.
           io_bind (io_emit (ConsoleLog (SimpleSwapAttemptFailed attempt e))) (\<lambda>_.
             io_when (attempt < maxRetries) (io_emit (Sleep 1000))))
        (\<lambda>lastError.
           \<lparr>success = False, transactionHash = None, toTokenAmount = None,
            error = Some (case lastError of
                            Some e \<Rightarrow> AfterAttempts maxRetries e
                          | None \<Rightarrow> UnknownError)\<rparr>)
        1 None)"

text \<open>\<^verbatim>\<open>UniswapTrader.swapEthForToken\<close>, lines 528 to 535.\<close>

definition UniswapTrader_swapEthForToken ::
  "library \<Rightarrow> trader \<Rightarrow> world \<Rightarrow> string \<Rightarrow> string \<Rightarrow> rat \<Rightarrow> SwapResult io" where
  "UniswapTrader_swapEthForToken lib t w tokenAddress ethAmount slippage =
     swapEthForTokenSimple lib t w tokenAddress ethAmount slippage"

section \<open>lib/simpleSwap.ts\<close>

text \<open>
  The \<^verbatim>\<open>try\<close> block of \<^verbatim>\<open>SimpleSwapper.swapEthForToken\<close>, lines 73 to 191. The receipt is
  awaited in a race against a five-minute timer.
\<close>

definition SimpleSwapper_try ::
  "library \<Rightarrow> trader \<Rightarrow> world \<Rightarrow> string \<Rightarrow> string \<Rightarrow> rat \<Rightarrow> nat \<Rightarrow> nat \<Rightarrow> SwapResult io" where
  "SimpleSwapper_try lib t w tokenAddress ethAmount slippage maxRetries attempt =
     io_bind (io_emit (ConsoleLog (V2SwapAttempt attempt maxRetries ethAmount tokenAddress))) (\<lambda>_.
     if \<not> isAddress lib tokenAddress then io_throw (InvalidTokenAddress tokenAddress)
     else
       (let recipient' = signerAddress t in
        case parseEther lib ethAmount of
          None \<Rightarrow> io_throw (ParseEtherError ethAmount)
        | Some ethAmountWei \<Rightarrow>
       let minTradeAmount = 1500000000000000 in
       if ethAmountWei < minTradeAmount then io_throw (TradeTooSmall ethAmount)
       else
       let path = [WETH_ADDRESS, tokenAddress] in
     io_bind (io_read (dateNow w)) (\<lambda>now.
       let deadline' = now div 1000 + 1200;
           amountOutMin' = 0;
           call = SwapExactETHForTokens amountOutMin' path recipient' deadline' in
     io_bind (io_catch (estimateGasWithRetry w call ethAmountWei 2)
                (\<lambda>gasError. io_throw (GasEstimationWouldFail gasError))) (\<lambda>gasEstimate.
     io_bind (getGasConfig (gasSettings t) w gasEstimate Standard) (\<lambda>gasConfig.
       let txOptions' = txOptionsOf ethAmountWei gasConfig in
     io_bind (io_call (SendTransaction call txOptions')
                (\<lambda>h. sendTransaction w h call txOptions')) (\<lambda>txHash.
     io_bind (io_call (WaitForReceipt txHash)
                (\<lambda>h. if settlesInTime w h txHash then waitReceipt w h txHash
                     else Inl ConfirmationTimeout)) (\<lambda>receipt'.
       case receipt' of
         None \<Rightarrow> io_throw ReceiptNotReceived
       | Some r \<Rightarrow>
           if status r = Some 0 then io_throw (TransactionFailedOnChain txHash)
           else io_return \<lparr>success = True, transactionHash = Some (hash r),
                            toTokenAmount = Some UnknownAmount, error = None\<rparr>)))))))"

definition SimpleSwapper_swapEthForToken ::
  "library \<Rightarrow> trader \<Rightarrow> world \<Rightarrow> string \<Rightarrow> string \<Rightarrow> rat \<Rightarrow> SwapResult io" where
  "SimpleSwapper_swapEthForToken lib t w tokenAddress ethAmount slippage =
     (let maxRetries = 3 in
      retryLoop maxRetries
        (SimpleSwapper_try lib t w tokenAddress ethAmount slippage maxRetries)
        (\<lambda>attempt e.
           io_bind (io_emit (ConsoleLog (V2SwapAttemptFailed attempt e))) (\<lambda>_.
             io_when (attempt < maxRetries) (io_emit (Sleep (2 ^ (attempt - 1) * 2000)))))
        (\<lambda>lastError.
           \<lparr>success = False, transactionHash = None, toTokenAmount = None,
            error = Some (case lastError of
                            Some e \<Rightarrow> AfterAttempts maxRetries e
                          | None \<Rightarrow> UnknownErrorAfterRetries)\<rparr>)
        1 None)"

text \<open>\<^verbatim>\<open>getEthBalance\<close>, the same in both classes.\<close>

definition getEthBalance :: "library \<Rightarrow> trader \<Rightarrow> world \<Rightarrow> string io" where
  "getEthBalance lib t w =
     io_catch
       (io_bind (io_call (GetBalance (signerAddress t)) (\<lambda>h. getBalance w h (signerAddress t)))
          (\<lambda>balance. io_return (formatEther lib balance)))
       (\<lambda>e. io_return ''0'')"

section \<open>lib/trading.ts\<close>

record network =
  net_id :: string
  net_name :: string
  chainType :: string

record resolvedToken =
  address :: string
  network :: network

record tokenResolution =
  found :: bool
  token :: "resolvedToken option"

record TradeRequest =
  req_token :: string
  req_tweet :: string
  req_influencer :: string
  req_tweetId :: string

text \<open>
  An entry of \<^verbatim>\<open>TRADING_CONFIG.hybrid\<close> (\<^verbatim>\<open>config/trading.ts\<close>); the entry for Base has no
  \<^verbatim>\<open>maxSlippage\<close>. Both minima are the literal \<^verbatim>\<open>0.001\<close>.
\<close>

record hybridConfig =
  enabled :: bool
  minTradeAmountETH :: rat
  maxSlippage :: "rat option"

record tradingConfig =
  hybrid_base :: hybridConfig
  hybrid_ethereum :: hybridConfig

definition TRADING_CONFIG :: tradingConfig where
  "TRADING_CONFIG =
     \<lparr>hybrid_base =
        \<lparr>enabled = True, minTradeAmountETH = roundToDouble (1 / 1000), maxSlippage = None\<rparr>,
      hybrid_ethereum =
        \<lparr>enabled = True, minTradeAmountETH = roundToDouble (1 / 1000), maxSlippage = Some 3\<rparr>\<rparr>"

text \<open>\<^verbatim>\<open>TRADING_CONFIG.hybrid[networkType]\<close>; \<open>None\<close> is \<^verbatim>\<open>undefined\<close>.\<close>

definition hybrid :: "tradingConfig \<Rightarrow> string \<Rightarrow> hybridConfig option" where
  "hybrid cfg networkType =
     (if networkType = ''base'' then Some (hybrid_base cfg)
      else if networkType = ''ethereum'' then Some (hybrid_ethereum cfg)
      else None)"

record processEnv =
  TESTING :: "string option"
  ETHEREUM_MAINNET_RPC_URL :: "string option"
  ETHEREUM_TESTNET_RPC_URL :: "string option"
  ETHEREUM_PRIVATE_KEY :: "string option"
  ETHEREUM_WALLET_ADDRESS :: "string option"

text \<open>\<^verbatim>\<open>!x\<close> on an optional string holds for \<^verbatim>\<open>undefined\<close> and for the empty string.\<close>

definition nonEmpty :: "string option \<Rightarrow> string option" where
  "nonEmpty x = (case x of None \<Rightarrow> None | Some v \<Rightarrow> if v = [] then None else Some v)"

text \<open>
  The collaborators of the orchestrator that are not modelled further.
  \<open>connect rpcUrl privateKey\<close> is the body that \<^verbatim>\<open>createUniswapTrader\<close> and
  \<^verbatim>\<open>createSimpleSwapper\<close> share (\<^verbatim>\<open>new ethers.JsonRpcProvider(rpcUrl)\<close>,
  \<^verbatim>\<open>new ethers.Wallet(privateKey, provider)\<close>, the constructor), which makes no network call
  before it returns. \<open>walletBalanceETH\<close> is lines 102 to 116 of \<^verbatim>\<open>executeTrade\<close>: the wallet
  provider of the token's network and its balance converted to a number of ETH (a
  balance that \<^verbatim>\<open>parseFloat\<close> reads as \<^verbatim>\<open>NaN\<close> is not modelled).
  \<open>executeTestTrade\<close> and \<open>executeBaseNetworkTrade\<close> are the simulated trade and the
  custodial trading path.
\<close>

record collaborators =
  connect :: "string \<Rightarrow> string \<Rightarrow> err + trader"
  resolveTokenAddress :: "string \<Rightarrow> tokenResolution io"
  walletBalanceETH :: "string \<Rightarrow> rat io"
  generateId :: "event list \<Rightarrow> string"
  executeTestTrade :: "TradeRequest \<Rightarrow> unit io"
  executeBaseNetworkTrade ::
    "TradeRequest \<Rightarrow> resolvedToken \<Rightarrow> rat \<Rightarrow> TradingPosition \<Rightarrow> unit io"

definition getTokenPrice :: "library \<Rightarrow> string \<Rightarrow> rat" where
  "getTokenPrice lib tokenSymbol =
     (let k = toUpperCase lib tokenSymbol in
      if k = ''ETH'' then 2500 else if k = ''SOL'' then 100
      else if k = ''ADA'' then roundToDouble (45 / 100)
      else if k = ''DOT'' then roundToDouble (72 / 10) else if k = ''LINK'' then 15
      else if k = ''UNI'' then 65 / 10 else if k = ''AAVE'' then 95
      else if k = ''MATIC'' then roundToDouble (85 / 100) else if k = ''AVAX'' then 37
      else if k = ''EIGEN'' then roundToDouble (385 / 100) else 1)"

text \<open>
  \<^verbatim>\<open>executeEthereumNetworkTrade\<close>. Its outer \<^verbatim>\<open>catch\<close> logs and rethrows. A \<^verbatim>\<open>slippage\<close> that
  is \<^verbatim>\<open>undefined\<close> takes the default of the callee's signature (5 and 3).
\<close>

definition executeEthereumNetworkTrade ::
  "library \<Rightarrow> tradingConfig \<Rightarrow> processEnv \<Rightarrow> collaborators \<Rightarrow> world
     \<Rightarrow> TradeRequest \<Rightarrow> resolvedToken \<Rightarrow> rat \<Rightarrow> TradingPosition \<Rightarrow> unit io" where
  "executeEthereumNetworkTrade lib cfg env co w request tok tradeAmountETH position =
     (if chainType (network tok) \<noteq> ''ethereum''
      then io_throw (ExpectedEthereumNetwork (chainType (network tok)))
      else
      let networkConfig = hybrid_ethereum cfg in
      if \<not> enabled networkConfig then io_throw EthereumTradingDisabled
      else
      let rpcUrl = (if net_id (network tok) = ''ethereum-mainnet''
                    then ETHEREUM_MAINNET_RPC_URL env else ETHEREUM_TESTNET_RPC_URL env) in
      io_bind (io_some (nonEmpty rpcUrl) (NoRpcUrl (net_id (network tok)))) (\<lambda>rpcUrl'.
      io_bind (io_some (nonEmpty (ETHEREUM_PRIVATE_KEY env)) PrivateKeyRequired) (\<lambda>privateKey.
      io_bind (io_of (connect co rpcUrl' privateKey)) (\<lambda>uniswapTrader.
      io_bind (io_some (nonEmpty (ETHEREUM_WALLET_ADDRESS env)) WalletAddressRequired) (\<lambda>walletAddress.
      io_bind (getEthBalance lib uniswapTrader w) (\<lambda>ethBalance.
      if parseFloat lib ethBalance < tradeAmountETH
      then io_throw (InsufficientETHBalance ethBalance tradeAmountETH)
      else
      io_bind (UniswapTrader_swapEthForToken lib uniswapTrader w (address tok)
                 (numberToString lib tradeAmountETH)
                 (case maxSlippage networkConfig of None \<Rightarrow> 5 | Some s \<Rightarrow> s)) (\<lambda>swapResult.
      io_bind
        (if \<not> success swapResult
         then
           io_bind (io_emit (ConsoleLog (V3Failed (error swapResult)))) (\<lambda>_.
           io_bind (io_emit (ConsoleLog TryingV2Fallback)) (\<lambda>_.
           let v3Error = error swapResult in
           io_catch
             (io_bind (io_of (connect co rpcUrl' privateKey)) (\<lambda>simpleSwapper.
                  io_bind (SimpleSwapper_swapEthForToken lib simpleSwapper w (address tok)
                             (numberToString lib tradeAmountETH)
                             (case maxSlippage networkConfig of None \<Rightarrow> 3 | Some s \<Rightarrow> s))
                    (\<lambda>swapResult'.
                  io_bind
                    (if success swapResult'
                     then io_emit (ConsoleLog V2FallbackSucceeded)
                     else io_bind (io_emit (ConsoleLog BothFailed)) (\<lambda>_.
                          io_bind (io_emit (ConsoleLog (V3Error v3Error))) (\<lambda>_.
                          io_emit (ConsoleLog (V2Error (error swapResult'))))))
                    (\<lambda>_. io_return swapResult'))))
             (\<lambda>fallbackError.
                io_bind (io_emit (ConsoleLog (V2FallbackAlsoFailed fallbackError))) (\<lambda>_.
                io_bind (io_emit (ConsoleLog (V3ErrorWas v3Error))) (\<lambda>_.
                io_bind (io_emit (ConsoleLog (V2ErrorWas fallbackError))) (\<lambda>_.
                io_return swapResult))))))
         else io_return swapResult) (\<lambda>swapResult.
      if \<not> success swapResult
      then io_throw (case error swapResult of
                       None \<Rightarrow> DexSwapFailedUndefined
                     | Some e \<Rightarrow> DexSwapFailed e)
      else
      io_bind (io_emit (TradeBuyToast (req_token request) (toFixed lib tradeAmountETH 4)
                          (transactionHash swapResult))) (\<lambda>_.
      io_emit (SavePosition position))))))))))"

text \<open>The constant \<^verbatim>\<open>dexMinimum\<close> of \<^verbatim>\<open>executeTrade\<close>, the literal \<^verbatim>\<open>0.0015\<close>.\<close>

definition dexMinimum :: rat where
  "dexMinimum = roundToDouble (15 / 10000)"

text \<open>
  \<^verbatim>\<open>executeTrade\<close>. Its outer \<^verbatim>\<open>catch\<close> logs and rethrows. The position store and the
  notification sink accept every write. The position's \<^verbatim>\<open>purchasePrice\<close> is 0 when the
  object is created and is set from \<^verbatim>\<open>getTokenPrice\<close>, which cannot throw, before the
  object is used; the model creates it with that price. The info toast carries the amount
  as \<^verbatim>\<open>tradeAmountETH.toFixed(4)\<close>.
\<close>

definition executeTrade ::
  "library \<Rightarrow> tradingConfig \<Rightarrow> processEnv \<Rightarrow> collaborators \<Rightarrow> world \<Rightarrow> TradeRequest \<Rightarrow> unit io" where
  "executeTrade lib cfg env co w request =
     (if TESTING env = Some ''true'' then executeTestTrade co request
      else
      io_bind (resolveTokenAddress co (req_token request)) (\<lambda>tokenResult.
      case (if found tokenResult then token tokenResult else None) of
        None \<Rightarrow> io_emit (MarkTweetAsProcessed (req_tweetId request))
      | Some tok \<Rightarrow>
      io_bind (walletBalanceETH co (net_id (network tok))) (\<lambda>balanceETH.
      let networkType = chainType (network tok) in
      case hybrid cfg networkType of
        None \<Rightarrow> io_emit (MarkTweetAsProcessed (req_tweetId request))
      | Some networkConfig \<Rightarrow>
      if \<not> enabled networkConfig then io_emit (MarkTweetAsProcessed (req_tweetId request))
      else
      let preferredTradeAmountETH = number_times balanceETH (roundToDouble (1 / 10));
          minRequired = minTradeAmountETH networkConfig in
      if balanceETH < minRequired
      then io_emit (MarkTweetAsProcessed (req_tweetId request))
      else if networkType = ''ethereum'' \<and> balanceETH < dexMinimum
      then io_emit (MarkTweetAsProcessed (req_tweetId request))
      else
      let tradeAmountETH = max preferredTradeAmountETH minRequired;
          tradeAmountETH = (if networkType = ''ethereum'' then max tradeAmountETH dexMinimum
                            else tradeAmountETH) in
      io_bind (io_read (generateId co)) (\<lambda>newId.
      io_bind (io_read (dateNow w)) (\<lambda>now.
      let position =
            \<lparr>position_id = newId, position_token = req_token request,
             amount = tradeAmountETH, purchasePrice = getTokenPrice lib (req_token request),
             purchaseTime = now, tweet = req_tweet request,
             influencer = req_influencer request, position_status = Holding\<rparr> in
      io_catch
        (io_bind (io_emit (InfoToast (req_token request) (toFixed lib tradeAmountETH 4))) (\<lambda>_.
         if networkType = ''base''
         then executeBaseNetworkTrade co request tok tradeAmountETH position
         else if networkType = ''ethereum''
         then executeEthereumNetworkTrade lib cfg env co w request tok tradeAmountETH position
         else io_throw (UnsupportedNetworkType networkType)))
        (\<lambda>tradeError.
           io_bind (io_emit (SavePosition (position\<lparr>position_status := Failed\<rparr>))) (\<lambda>_.
           io_bind (io_emit (ErrorToast (req_token request) tradeError)) (\<lambda>_.
           io_throw tradeError))))))))"

section \<open>Reading a run\<close>

text \<open>Which events are sleeps, network calls, and the first line of an attempt.\<close>

fun isSleep :: "event \<Rightarrow> bool" where
  "isSleep (Sleep d) = True"
| "isSleep _ = False"

fun isNetworkCall :: "event \<Rightarrow> bool" where
  "isNetworkCall GetFeeData = True"
| "isNetworkCall GetBlock = True"
| "isNetworkCall (GetBalance a) = True"
| "isNetworkCall (QuoteExactInputSingle a b f x) = True"
| "isNetworkCall (EstimateGas c v) = True"
| "isNetworkCall (SendTransaction c opts) = True"
| "isNetworkCall (WaitForReceipt tx) = True"
| "isNetworkCall _ = False"

fun isPrimaryAttempt :: "event \<Rightarrow> bool" where
  "isPrimaryAttempt (ConsoleLog (SimpleSwapAttempt k n a t)) = True"
| "isPrimaryAttempt _ = False"

fun isFallbackAttempt :: "event \<Rightarrow> bool" where
  "isFallbackAttempt (ConsoleLog (V2SwapAttempt k n a t)) = True"
| "isFallbackAttempt _ = False"

text \<open>
  The fallback venue's own events: its console lines and the calls of the V2 router method.
  The first line of its first attempt marks an invocation.
\<close>

fun isFallbackEvent :: "event \<Rightarrow> bool" where
  "isFallbackEvent (ConsoleLog (V2SwapAttempt k n a t)) = True"
| "isFallbackEvent (ConsoleLog (V2SwapAttemptFailed k e)) = True"
| "isFallbackEvent (EstimateGas (SwapExactETHForTokens m p r d) v) = True"
| "isFallbackEvent (SendTransaction (SwapExactETHForTokens m p r d) opts) = True"
| "isFallbackEvent _ = False"

fun isFallbackStart :: "event \<Rightarrow> bool" where
  "isFallbackStart (ConsoleLog (V2SwapAttempt k n a t)) = (k = 1)"
| "isFallbackStart _ = False"

text \<open>A call of the V2 router method passes the minimum output 0.\<close>

fun minOutIsZero :: "event \<Rightarrow> bool" where
  "minOutIsZero (EstimateGas (SwapExactETHForTokens amountOutMin' p r d) v) = (amountOutMin' = 0)"
| "minOutIsZero (SendTransaction (SwapExactETHForTokens amountOutMin' p r d) opts) = (amountOutMin' = 0)"
| "minOutIsZero _ = True"

text \<open>\<open>emits_only P m\<close>: whatever happened before, every event that \<open>m\<close> adds satisfies \<open>P\<close>.\<close>

definition emits_only :: "(event \<Rightarrow> bool) \<Rightarrow> 'a io \<Rightarrow> bool" where
  "emits_only P m = (\<forall>h. list_all P (snd (m h)))"

text \<open>Events that are neither a sleep, nor the first line of an attempt, nor the fallback venue's.\<close>

definition isQuiet :: "event \<Rightarrow> bool" where
  "isQuiet e = (\<not> isSleep e \<and> \<not> isPrimaryAttempt e \<and> \<not> isFallbackEvent e)"

text \<open>\<open>mentions e x\<close>: the message \<open>e\<close> is \<open>x\<close> or embeds it.\<close>

fun mentions :: "err \<Rightarrow> err \<Rightarrow> bool" where
  "mentions (GasEstimationFailed n e) x = (GasEstimationFailed n e = x \<or> mentions e x)"
| "mentions (GasEstimationWouldFail e) x = (GasEstimationWouldFail e = x \<or> mentions e x)"
| "mentions (AfterAttempts n e) x = (AfterAttempts n e = x \<or> mentions e x)"
| "mentions (DexSwapFailed e) x = (DexSwapFailed e = x \<or> mentions e x)"
| "mentions e x = (e = x)"

section \<open>Example environments\<close>

definition EIGEN :: string where
  "EIGEN = ''0xec53bf9167f50cdeb3ae105f56099aaab9061f83''"

definition exampleLib :: library where
  "exampleLib =
     \<lparr>isAddress = (\<lambda>a. length a = 42 \<and> take 2 a = ''0x''),
      parseEther = (\<lambda>a. if a = ''0.1'' then Some 100000000000000000
                         else if a = ''0.001'' then Some 1000000000000000 else None),
      formatEther = (\<lambda>v. if v = 1000000000000000000 then ''1.0'' else ''0.0''),
      numberToString = (\<lambda>x. if x = roundToDouble (1 / 10) then ''0.1''
                             else if x = roundToDouble (1 / 1000) then ''0.001'' else ''NaN''),
      toFixed = (\<lambda>x n. if x = roundToDouble (1 / 10) \<and> n = 4 then ''0.1000'' else ''NaN''),
      parseFloat = (\<lambda>a. if a = ''1.0'' then 1 else 0),
      toUpperCase = (\<lambda>a. a)\<rparr>"

definition exampleTrader :: trader where
  "exampleTrader =
     \<lparr>signerAddress = ''0x52908400098527886E0F7030069857D2E4169EE7'',
      gasSettings = createGasManager 1\<rparr>"

text \<open>A provider that answers nothing.\<close>

definition offlineWorld :: world where
  "offlineWorld =
     \<lparr>dateNow = (\<lambda>h. 0),
      getFeeData = (\<lambda>h. Inl (Thrown ''offline'')),
      getBlockBaseFee = (\<lambda>h. Inl (Thrown ''offline'')),
      getBalance = (\<lambda>h a. Inl (Thrown ''offline'')),
      quoteExactInputSingle = (\<lambda>h a b f x. Inl (Thrown ''offline'')),
      estimateGas = (\<lambda>h c v. Inl (Thrown ''offline'')),
      sendTransaction = (\<lambda>h c opts. Inl (Thrown ''offline'')),
      waitReceipt = (\<lambda>h tx. Inl (Thrown ''offline'')),
      settlesInTime = (\<lambda>h tx. False)\<rparr>"

text \<open>A wallet holding 1 ETH and a token with no pool on either router.\<close>

definition dryWorld :: world where
  "dryWorld =
     \<lparr>dateNow = (\<lambda>h. 1700000000000),
      getFeeData = (\<lambda>h. Inr (Some 20000000000)),
      getBlockBaseFee = (\<lambda>h. Inr (Some 10000000000)),
      getBalance = (\<lambda>h a. Inr 1000000000000000000),
      quoteExactInputSingle = (\<lambda>h a b f x. Inl (Thrown ''execution reverted'')),
      estimateGas = (\<lambda>h c v. Inl (Thrown ''execution reverted'')),
      sendTransaction = (\<lambda>h c opts. Inl (Thrown ''execution reverted'')),
      waitReceipt = (\<lambda>h tx. Inl (Thrown ''execution reverted'')),
      settlesInTime = (\<lambda>h tx. True)\<rparr>"

text \<open>
  A wallet holding 1 ETH and a token with a pool on every fee tier, the 0.05% tier
  quoting a better price than the 0.3% tier; every transaction confirms.
\<close>

definition liquidWorld :: world where
  "liquidWorld =
     \<lparr>dateNow = (\<lambda>h. 1700000000000),
      getFeeData = (\<lambda>h. Inr (Some 20000000000)),
      getBlockBaseFee = (\<lambda>h. Inr (Some 10000000000)),
      getBalance = (\<lambda>h a. Inr 1000000000000000000),
      quoteExactInputSingle = (\<lambda>h a b f x. Inr (if f = 500 then x * 3000 else x * 2000)),
      estimateGas = (\<lambda>h c v. Inr 150000),
      sendTransaction = (\<lambda>h c opts. Inr ''0xaa''),
      waitReceipt = (\<lambda>h tx. Inr (Some \<lparr>status = Some 1, hash = ''0xaa''\<rparr>)),
      settlesInTime = (\<lambda>h tx. True)\<rparr>"

text \<open>As \<open>liquidWorld\<close>, but the token has no V3 pool: the quoter reverts on every tier.\<close>

definition v2OnlyWorld :: world where
  "v2OnlyWorld = liquidWorld\<lparr>quoteExactInputSingle := (\<lambda>h a b f x. Inl (Thrown ''execution reverted''))\<rparr>"

definition exampleToken :: resolvedToken where
  "exampleToken =
     \<lparr>address = EIGEN,
      network = \<lparr>net_id = ''ethereum-mainnet'', net_name = ''Ethereum Mainnet'',
                 chainType = ''ethereum''\<rparr>\<rparr>"

definition exampleRequest :: TradeRequest where
  "exampleRequest =
     \<lparr>req_token = ''EIGEN'', req_tweet = ''EIGEN looks strong'', req_influencer = ''jt_rose'',
      req_tweetId = ''1''\<rparr>"

definition exampleEnv :: processEnv where
  "exampleEnv =
     \<lparr>TESTING = None, ETHEREUM_MAINNET_RPC_URL = Some ''https://rpc.example'',
      ETHEREUM_TESTNET_RPC_URL = None, ETHEREUM_PRIVATE_KEY = Some ''0xkey'',
      ETHEREUM_WALLET_ADDRESS = Some ''0x52908400098527886E0F7030069857D2E4169EE7''\<rparr>"

text \<open>Collaborators for a wallet whose balance is \<open>b\<close> ETH.\<close>

definition exampleCollaborators :: "rat \<Rightarrow> collaborators" where
  "exampleCollaborators b =
     \<lparr>connect = (\<lambda>rpcUrl privateKey. Inr exampleTrader),
      resolveTokenAddress = (\<lambda>symbol. io_return \<lparr>found = True, token = Some exampleToken\<rparr>),
      walletBalanceETH = (\<lambda>networkId. io_return b),
      generateId = (\<lambda>h. ''id-1''),
      executeTestTrade = (\<lambda>request. io_return ()),
      executeBaseNetworkTrade = (\<lambda>request tok a position. io_return ())\<rparr>"

text \<open>A tenth of an ETH, as the number \<^verbatim>\<open>0.1\<close>.\<close>

definition exampleAmount :: rat where
  "exampleAmount = roundToDouble (1 / 10)"

definition examplePosition :: TradingPosition where
  "examplePosition =
     \<lparr>position_id = ''id-1'', position_token = ''EIGEN'', amount = exampleAmount,
      purchasePrice = roundToDouble (385 / 100), purchaseTime = 1700000000000, tweet = ''EIGEN looks strong'',
      influencer = ''jt_rose'', position_status = Holding\<rparr>"

section \<open>Properties\<close>

subsection \<open>Arithmetic of bigint\<close>

lemma bigint_div_nonneg: "0 \<le> a \<Longrightarrow> 0 < b \<Longrightarrow> bigint_div a b = a div b"
  by (cases "a = 0") (simp_all add: bigint_div_def)

lemma bigint_div_nonpos: "a \<le> 0 \<Longrightarrow> 0 < b \<Longrightarrow> bigint_div a b \<le> 0"
  by (cases "a = 0") (simp_all add: bigint_div_def pos_imp_zdiv_nonneg_iff)

lemma buffered_max:
  "0 < (m::int) \<Longrightarrow>
   (if bigint_div (g * 120) 100 > m then bigint_div (g * 120) 100 else m) = max (g * 120 div 100) m"
proof (cases "0 \<le> g")
  case True
  assume "0 < m"
  from True have "bigint_div (g * 120) 100 = g * 120 div 100"
    by (intro bigint_div_nonneg) simp_all
  then show ?thesis by (simp add: max_def)
next
  case False
  assume m: "0 < m"
  from False have a: "bigint_div (g * 120) 100 \<le> 0"
    by (intro bigint_div_nonpos) (simp_all add: mult_le_0_iff)
  from False have b: "g * 120 div 100 \<le> 0"
    by arith
  from a b m show ?thesis by (simp add: max_def)
qed

subsection \<open>Arithmetic of numbers\<close>

text \<open>
  \<open>binade x\<close> is the exponent of \<open>x\<close>. So \<open>roundToDouble x\<close> is a double, a significand
  of 53 bits at that exponent, and one nearest to \<open>x\<close>, within half a unit in the last
  place.
\<close>

lemma bitLength_bounds: "0 < n \<Longrightarrow> 2 ^ (bitLength n - 1) \<le> n \<and> n < 2 ^ bitLength n"
proof (induction n rule: bitLength.induct)
  case (1 n)
  show ?case
  proof (cases "n div 2 = 0")
    case True
    with "1.prems" have "n = 1" by (simp add: div_eq_0_iff)
    then show ?thesis by (simp add: bitLength.simps)
  next
    case False
    with "1.IH" "1.prems" have ih: "2 ^ (bitLength (n div 2) - 1) \<le> n div 2"
      "n div 2 < 2 ^ bitLength (n div 2)" by simp_all
    from False have pos: "0 < bitLength (n div 2)" by (simp add: bitLength.simps)
    have b: "bitLength n = Suc (bitLength (n div 2))"
      using "1.prems" by (simp add: bitLength.simps)
    from pos obtain k where k: "bitLength (n div 2) = Suc k" by (cases "bitLength (n div 2)") auto
    from ih k have "2 * 2 ^ k \<le> 2 * (n div 2)" by simp
    also have "\<dots> \<le> n" by simp
    finally have lo: "2 ^ (bitLength n - 1) \<le> n" by (simp add: b k)
    from ih(2) have "n div 2 + 1 \<le> 2 ^ bitLength (n div 2)" by simp
    then have "2 * (n div 2) + 2 \<le> 2 * 2 ^ bitLength (n div 2)" by simp
    moreover have "n < 2 * (n div 2) + 2" by arith
    ultimately have "n < 2 ^ bitLength n" by (simp add: b)
    with lo show ?thesis by simp
  qed
qed

lemma binade_bounds:
  assumes "0 < x"
  shows "pow2 (binade x) \<le> x \<and> x < pow2 (binade x + 1)"
proof (cases "1 \<le> x")
  case True
  let ?n = "nat \<lfloor>x\<rfloor>"
  from True have n: "0 < ?n" by simp
  from bitLength_bounds [OF n] have lo: "2 ^ (bitLength ?n - 1) \<le> ?n" and hi: "?n < 2 ^ bitLength ?n"
    by simp_all
  from n have pos: "0 < bitLength ?n" by (simp add: bitLength.simps)
  have e: "binade x = int (bitLength ?n - 1)" using True pos by (simp add: binade_def)
  have f1: "(of_nat ?n :: rat) \<le> x" using True by (simp add: of_nat_nat)
  from lo have "(2::rat) ^ (bitLength ?n - 1) \<le> of_nat ?n"
    by (metis of_nat_le_iff of_nat_numeral of_nat_power)
  from this f1 have "(2::rat) ^ (bitLength ?n - 1) \<le> x" by (rule order_trans)
  then have a: "pow2 (binade x) \<le> x" by (simp add: e pow2_def)
  have "x < of_int \<lfloor>x\<rfloor> + 1" by linarith
  also have "\<dots> = of_nat (?n + 1)" using True by (simp add: of_nat_nat)
  also from hi have "?n + 1 \<le> 2 ^ bitLength ?n" by (metis Suc_eq_plus1 Suc_leI)
  then have "(of_nat (?n + 1) :: rat) \<le> 2 ^ bitLength ?n"
    by (metis of_nat_le_iff of_nat_numeral of_nat_power)
  finally have "x < 2 ^ bitLength ?n" .
  moreover have "binade x + 1 = int (bitLength ?n)" using True by (simp add: binade_def)
  ultimately have "x < pow2 (binade x + 1)" by (simp add: pow2_def)
  with a show ?thesis by simp
next
  case False
  let ?c = "\<lceil>1 / x\<rceil>"
  let ?m = "nat (?c - 1)"
  from False assms have inv: "1 < 1 / x" by simp
  then have c2: "2 \<le> ?c" by (simp add: le_ceiling_iff)
  then have m: "0 < ?m" by simp
  from c2 have "0 \<le> ?c - 1" by linarith
  then have "int ?m = ?c - 1" by (rule nat_0_le)
  then have mcr: "(of_nat ?m :: rat) = of_int ?c - 1"
    by (metis of_int_of_nat_eq of_int_diff of_int_1)
  from bitLength_bounds [OF m] have lo: "2 ^ (bitLength ?m - 1) \<le> ?m" and hi: "?m < 2 ^ bitLength ?m"
    by simp_all
  from m have pos: "0 < bitLength ?m" by (simp add: bitLength.simps)
  have e: "binade x = - int (bitLength ?m)" using False by (simp add: binade_def)
  have "1 / x \<le> of_int ?c" by simp
  also have "\<dots> = of_nat (?m + 1)" by (simp only: of_nat_add of_nat_1 mcr diff_add_cancel)
  also from hi have "?m + 1 \<le> 2 ^ bitLength ?m" by (metis Suc_eq_plus1 Suc_leI)
  then have "(of_nat (?m + 1) :: rat) \<le> 2 ^ bitLength ?m"
    by (metis of_nat_le_iff of_nat_numeral of_nat_power)
  finally have "1 / x \<le> 2 ^ bitLength ?m" .
  with assms have "1 \<le> 2 ^ bitLength ?m * x" by (simp add: field_simps)
  then have "1 / 2 ^ bitLength ?m \<le> x" by (simp add: field_simps)
  then have a: "pow2 (binade x) \<le> x" using pos by (simp add: e pow2_def)
  from lo have "(2::rat) ^ (bitLength ?m - 1) \<le> of_nat ?m"
    by (metis of_nat_le_iff of_nat_numeral of_nat_power)
  also have "\<dots> = of_int ?c - 1" by (rule mcr)
  also have "\<dots> < 1 / x" by linarith
  finally have "2 ^ (bitLength ?m - 1) < 1 / x" .
  with assms have "2 ^ (bitLength ?m - 1) * x < 1" by (simp add: field_simps)
  then have lt: "x < 1 / 2 ^ (bitLength ?m - 1)" by (simp add: field_simps)
  have "x < pow2 (binade x + 1)"
  proof (cases "bitLength ?m = 1")
    case True
    with lt show ?thesis by (simp add: e pow2_def)
  next
    case False
    with pos have "nat (int (bitLength ?m) - 1) = bitLength ?m - 1" "\<not> 0 \<le> 1 - int (bitLength ?m)"
      by simp_all
    with lt show ?thesis by (simp add: e pow2_def)
  qed
  with a show ?thesis by simp
qed

lemma pow2_pos: "0 < pow2 e"
  by (simp add: pow2_def)

lemma roundHalfEven_near: "\<bar>of_int (roundHalfEven y) - y\<bar> \<le> 1 / 2"
proof -
  define f where "f = \<lfloor>y\<rfloor>"
  have "of_int f \<le> y" "y < of_int f + 1"
    unfolding f_def by linarith+
  moreover have "roundHalfEven y =
      (if y - of_int f < 1 / 2 then f else if 1 / 2 < y - of_int f then f + 1
       else if even f then f else f + 1)"
    by (simp add: roundHalfEven_def f_def Let_def)
  ultimately show ?thesis
    by (auto simp: abs_if)
qed

lemma roundToDouble_near:
  "\<bar>roundToDouble x - x\<bar> \<le> pow2 (binade \<bar>x\<bar> - 52) / 2"
proof (cases "x = 0")
  case True
  then show ?thesis using pow2_pos [of "binade \<bar>x\<bar> - 52"] by (simp add: roundToDouble_def)
next
  case False
  let ?u = "pow2 (binade \<bar>x\<bar> - 52)"
  let ?k = "roundHalfEven (\<bar>x\<bar> / ?u)"
  have u: "0 < ?u" by (rule pow2_pos)
  have "roundToDouble x - x = sgn x * (of_int ?k * ?u) - sgn x * \<bar>x\<bar>"
    using False by (simp add: roundToDouble_def Let_def mult_sgn_abs mult.assoc)
  then have "roundToDouble x - x = sgn x * (of_int ?k * ?u - \<bar>x\<bar>)"
    by (simp only: right_diff_distrib)
  then have "\<bar>roundToDouble x - x\<bar> = \<bar>of_int ?k * ?u - \<bar>x\<bar>\<bar>"
    using False by (simp add: abs_mult abs_sgn_eq)
  also have "of_int ?k * ?u - \<bar>x\<bar> = (of_int ?k - \<bar>x\<bar> / ?u) * ?u"
    using u by (simp add: field_simps)
  also have "\<bar>\<dots>\<bar> = \<bar>of_int ?k - \<bar>x\<bar> / ?u\<bar> * ?u"
    using u by (simp add: abs_mult)
  also have "\<dots> \<le> 1 / 2 * ?u"
    using roundHalfEven_near [of "\<bar>x\<bar> / ?u"] u by (intro mult_right_mono) simp_all
  finally show ?thesis by simp
qed


lemma pow2_power_int: "pow2 e = 2 powi e"
  by (simp add: pow2_def power_int_def inverse_eq_divide power_one_over)

lemma pow2_shift: "pow2 e = 2 ^ n * pow2 (e - int n)"
proof -
  have "(2::rat) powi e = 2 powi (int n + (e - int n))" by simp
  also have "\<dots> = 2 powi int n * 2 powi (e - int n)"
    by (rule power_int_add) simp
  finally show ?thesis by (simp add: pow2_power_int)
qed

lemma roundHalfEven_floor: "\<lfloor>y\<rfloor> \<le> roundHalfEven y \<and> roundHalfEven y \<le> \<lfloor>y\<rfloor> + 1"
  by (simp add: roundHalfEven_def Let_def)

lemma roundToDouble_significand:
  assumes "x \<noteq> 0"
  shows "\<exists>k. 2 ^ 52 \<le> k \<and> k \<le> 2 ^ 53
           \<and> roundToDouble x = sgn x * of_int k * pow2 (binade \<bar>x\<bar> - 52)"
proof -
  let ?e = "binade \<bar>x\<bar>"
  let ?u = "pow2 (?e - 52)"
  let ?y = "\<bar>x\<bar> / ?u"
  have u: "0 < ?u" by (rule pow2_pos)
  from assms have "0 < \<bar>x\<bar>" by simp
  from binade_bounds [OF this] have lo: "pow2 ?e \<le> \<bar>x\<bar>" and hi: "\<bar>x\<bar> < pow2 (?e + 1)"
    by simp_all
  from pow2_shift [of ?e 52] have "pow2 ?e = 2 ^ 52 * ?u" by simp
  with lo u have "2 ^ 52 \<le> ?y" by (simp add: field_simps)
  then have "(2::int) ^ 52 \<le> \<lfloor>?y\<rfloor>" by (simp add: le_floor_iff)
  with roundHalfEven_floor [of ?y] have a: "2 ^ 52 \<le> roundHalfEven ?y" by linarith
  from pow2_shift [of "?e + 1" 53] have "pow2 (?e + 1) = 2 ^ 53 * ?u" by simp
  with hi u have "?y < 2 ^ 53" by (simp add: field_simps)
  then have "\<lfloor>?y\<rfloor> < (2::int) ^ 53" by (simp add: floor_less_iff)
  with roundHalfEven_floor [of ?y] have b: "roundHalfEven ?y \<le> 2 ^ 53" by linarith
  have "roundToDouble x = sgn x * of_int (roundHalfEven ?y) * ?u"
    using assms by (simp add: roundToDouble_def Let_def)
  with a b show ?thesis by blast
qed

text \<open>The doubles that the literals \<^verbatim>\<open>0.10\<close>, \<^verbatim>\<open>0.001\<close> and \<^verbatim>\<open>0.0015\<close> denote.\<close>

lemma double_tenth: "roundToDouble (1 / 10) = 3602879701896397 / 36028797018963968"
  by code_simp

lemma double_thousandth: "roundToDouble (1 / 1000) = 1152921504606847 / 1152921504606846976"
  by code_simp

lemma dexMinimum_value: "dexMinimum = 3458764513820541 / 2305843009213693952"
  by code_simp

lemma exampleAmount_value: "exampleAmount = 3602879701896397 / 36028797018963968"
  by code_simp

text \<open>
  A double product is not the product of the decimal fractions: a tenth of 3 is
  \<^verbatim>\<open>0.30000000000000004\<close>.
\<close>

lemma tenth_of_three:
  "number_times 3 (roundToDouble (1 / 10)) = 1351079888211149 / 4503599627370496"
  "number_times 3 (roundToDouble (1 / 10)) \<noteq> 3 / 10"
  by code_simp+

text \<open>\<^verbatim>\<open>Math.floor(m * 100)\<close> on the multipliers of the gas manager.\<close>

lemma multiplier_percent:
  "\<lfloor>number_times 1 100\<rfloor> = 100"
  "\<lfloor>number_times (roundToDouble (11 / 10)) 100\<rfloor> = 110"
  "\<lfloor>number_times (roundToDouble (12 / 10)) 100\<rfloor> = 120"
  "\<lfloor>number_times (roundToDouble (15 / 10)) 100\<rfloor> = 150"
  "\<lfloor>number_times 2 100\<rfloor> = 200"
  "\<lfloor>number_times 3 100\<rfloor> = 300"
  by code_simp+

subsection \<open>Running the combinators\<close>

lemmas io_defs =
  io_return_def io_throw_def io_emit_def io_call_def io_bind_def io_catch_def io_when_def
  io_some_def io_of_def io_read_def

lemma io_bind_return_fst:
  "fst (io_bind m (\<lambda>x. io_return (f x)) h) = map_sum (\<lambda>e. e) f (fst (m h))"
  by (auto simp: io_bind_def io_return_def split: prod.splits sum.splits)

subsection \<open>The gas manager\<close>

lemma getLegacyGasPrice_returns: "\<exists>p es. getLegacyGasPrice s w u h = (Inr p, es)"
  by (auto simp: getLegacyGasPrice_def io_defs Let_def split: prod.splits sum.splits)

lemma getEIP1559FeeData_returns: "\<exists>p es. getEIP1559FeeData s w u h = (Inr p, es)"
  by (auto simp: getEIP1559FeeData_def io_defs Let_def
      split: prod.splits sum.splits option.splits)

lemma getGasConfig_limit:
  "map_sum (\<lambda>e. e) gasLimit (fst (getGasConfig s w g u h))
     = Inr (max (g * 120 div 100) (if isMainnet s then 150000 else 100000))"
proof -
  obtain p es where p: "getLegacyGasPrice s w u h = (Inr p, es)"
    using getLegacyGasPrice_returns by blast
  obtain q es' where q: "getEIP1559FeeData s w u h = (Inr q, es')"
    using getEIP1559FeeData_returns by blast
  show ?thesis
    using buffered_max [of 150000 g] buffered_max [of 100000 g]
    by (simp add: getGasConfig_def Let_def io_bind_return_fst p q)
qed

lemma getGasConfig_returns: "\<exists>c es. getGasConfig s w g u h = (Inr c, es)"
proof -
  obtain p es where p: "getLegacyGasPrice s w u h = (Inr p, es)"
    using getLegacyGasPrice_returns by blast
  obtain q es' where q: "getEIP1559FeeData s w u h = (Inr q, es')"
    using getEIP1559FeeData_returns by blast
  show ?thesis
    by (simp add: getGasConfig_def Let_def io_bind_def io_return_def p q)
qed

text \<open>
  C9. For every estimated gas \<open>g\<close>, \<^verbatim>\<open>getGasConfig\<close> returns, and its gas limit is the larger
  of \<open>\<lfloor>g \<times> 120 / 100\<rfloor>\<close> and the floor of the network class: 150000 on a main network,
  100000 on a test network. The limit is the same whatever the provider answers, whatever
  the urgency and whatever happened before, so two calls with the same estimate on the
  same network give the same gas limit. \<^verbatim>\<open>createGasManager\<close> makes chains 1 and 8453 main
  networks and every other chain a test network.
\<close>

theorem getGasConfig_gasLimit:
  "map_sum (\<lambda>e. e) gasLimit (fst (getGasConfig s w g u h))
     = Inr (max (g * 120 div 100) (if isMainnet s then 150000 else 100000))
   \<and> map_sum (\<lambda>e. e) gasLimit (fst (getGasConfig s w g u h))
     = map_sum (\<lambda>e. e) gasLimit (fst (getGasConfig s w' g u' h'))
   \<and> isMainnet (createGasManager c) = (c = 1 \<or> c = 8453)"
  by (simp add: getGasConfig_limit createGasManager_def)

theorem getGasConfig_gasLimit_witness:
  "map_sum (\<lambda>e. e) gasLimit (fst (getGasConfig (createGasManager 1) liquidWorld 200000 Standard []))
     = Inr 240000
   \<and> map_sum (\<lambda>e. e) gasLimit (fst (getGasConfig (createGasManager 1) offlineWorld 100 Rapid []))
     = Inr 150000
   \<and> map_sum (\<lambda>e. e) gasLimit (fst (getGasConfig (createGasManager 11155111) offlineWorld 100 Fast []))
     = Inr 100000"
  using getGasConfig_gasLimit [of "createGasManager 1" liquidWorld 200000 Standard "[]"]
    getGasConfig_gasLimit [of "createGasManager 1" offlineWorld 100 Rapid "[]"]
    getGasConfig_gasLimit [of "createGasManager 11155111" offlineWorld 100 Fast "[]"]
  by (simp add: createGasManager_def)

subsection \<open>The quote engine\<close>

text \<open>
  C3, as amended. For every quote \<open>Q \<ge> 0\<close> (a quote is a \<^verbatim>\<open>uint256\<close>) and whole slippage
  percentage \<open>S\<close> in (0, 100), the minimum output is \<open>\<lfloor>Q \<times> (100 - S) / 100\<rfloor>\<close>, lies between
  0 and \<open>Q\<close>, and does not increase as \<open>S\<close> increases; it strictly decreases when \<open>Q \<ge> 100\<close>.
\<close>

theorem minOutput_bounds_monotone:
  assumes "0 \<le> Q" and "0 < S" and "S < 100"
  shows "minOutput Q S = Q * (100 - S) div 100
       \<and> 0 \<le> minOutput Q S \<and> minOutput Q S \<le> Q
       \<and> (\<forall>S'. S < S' \<and> S' < 100 \<longrightarrow> minOutput Q S' \<le> minOutput Q S)
       \<and> (100 \<le> Q \<longrightarrow> (\<forall>S'. S < S' \<and> S' < 100 \<longrightarrow> minOutput Q S' < minOutput Q S))"
proof -
  have eq: "minOutput Q T = Q * (100 - T) div 100" if "T < 100" for T
    using assms(1) that by (simp add: minOutput_def bigint_div_nonneg)
  have nonneg: "0 \<le> Q * (100 - S) div 100"
    using assms by (simp add: pos_imp_zdiv_nonneg_iff)
  have "Q * (100 - S) \<le> Q * 100"
    using assms by (intro mult_left_mono) simp_all
  then have "Q * (100 - S) div 100 \<le> Q * 100 div 100"
    by (rule zdiv_mono1) simp
  then have le: "Q * (100 - S) div 100 \<le> Q" by simp
  have mono: "Q * (100 - S') div 100 \<le> Q * (100 - S) div 100" if "S < S'" for S'
  proof -
    have "Q * (100 - S') \<le> Q * (100 - S)"
      using assms(1) that by (intro mult_left_mono) simp_all
    then show ?thesis by (rule zdiv_mono1) simp
  qed
  have strict: "Q * (100 - S') div 100 < Q * (100 - S) div 100"
    if "S < S'" and "100 \<le> Q" for S'
  proof -
    have "Q * 1 \<le> Q * (S' - S)"
      using assms(1) that(1) by (intro mult_left_mono) simp_all
    then have "Q * (100 - S') + 100 \<le> Q * (100 - S)"
      using that(2) by (simp add: algebra_simps)
    then have "(Q * (100 - S') + 100) div 100 \<le> Q * (100 - S) div 100"
      by (rule zdiv_mono1) simp
    then show ?thesis by simp
  qed
  show ?thesis
    using assms eq [of S] nonneg le mono strict
    by (auto simp: eq)
qed

theorem minOutput_bounds_monotone_witness:
  "minOutput 1000 5 = 950 \<and> minOutput 1000 6 < minOutput 1000 5
   \<and> minOutput 10 6 \<le> minOutput 10 5 \<and> minOutput 10 5 \<le> 10"
proof -
  have a: "(0::int) \<le> 1000" "(0::int) < 5" "(5::int) < 100" "(0::int) \<le> 10" by simp_all
  note big = minOutput_bounds_monotone [OF a(1) a(2) a(3)]
  note small = minOutput_bounds_monotone [OF a(4) a(2) a(3)]
  from big have b: "\<forall>S'. 5 < S' \<and> S' < 100 \<longrightarrow> minOutput 1000 S' < minOutput 1000 5"
    by auto
  from small have c: "\<forall>S'. 5 < S' \<and> S' < 100 \<longrightarrow> minOutput 10 S' \<le> minOutput 10 5"
    by auto
  have "minOutput 1000 6 < minOutput 1000 5"
    using b [rule_format, of 6] by simp
  moreover have "minOutput 10 6 \<le> minOutput 10 5"
    using c [rule_format, of 6] by simp
  ultimately show ?thesis
    using big small by simp
qed

text \<open>
  The claim as stated fails: at the quote 10, raising the slippage from 5 to 6 percent
  leaves the minimum output at 9.
\<close>

theorem minOutput_not_strictly_decreasing:
  "(0::int) < 5 \<and> (5::int) < 6 \<and> (6::int) < 100 \<and> \<not> minOutput 10 6 < minOutput 10 5"
  by (simp add: minOutput_def bigint_div_def)

text \<open>
  C4. \<^verbatim>\<open>findBestFeeAndQuote\<close> asks the quoter for the tier 3000; if that call succeeds it
  returns that tier's quote and asks nothing else. Only if it fails does it ask for the
  tier 500, and only if that fails too for the tier 10000. What a later tier would have
  answered has no part in the result. If all three calls fail it throws the no-liquidity
  error.
\<close>

theorem findBestFeeAndQuote_first_liquid_tier:
  "findBestFeeAndQuote w tokenAddress x h =
     (case quoteExactInputSingle w h WETH_ADDRESS tokenAddress 3000 x of
        Inr q \<Rightarrow>
          (Inr \<lparr>fq_fee = 3000, quote = q, amountOutMin = minOutput q 5\<rparr>,
           [QuoteExactInputSingle WETH_ADDRESS tokenAddress 3000 x])
      | Inl e1 \<Rightarrow>
     (case quoteExactInputSingle w (h @ [QuoteExactInputSingle WETH_ADDRESS tokenAddress 3000 x])
             WETH_ADDRESS tokenAddress 500 x of
        Inr q \<Rightarrow>
          (Inr \<lparr>fq_fee = 500, quote = q, amountOutMin = minOutput q 5\<rparr>,
           [QuoteExactInputSingle WETH_ADDRESS tokenAddress 3000 x,
            QuoteExactInputSingle WETH_ADDRESS tokenAddress 500 x])
      | Inl e2 \<Rightarrow>
     (case quoteExactInputSingle w
             (h @ [QuoteExactInputSingle WETH_ADDRESS tokenAddress 3000 x,
                   QuoteExactInputSingle WETH_ADDRESS tokenAddress 500 x])
             WETH_ADDRESS tokenAddress 10000 x of
        Inr q \<Rightarrow>
          (Inr \<lparr>fq_fee = 10000, quote = q, amountOutMin = minOutput q 5\<rparr>,
           [QuoteExactInputSingle WETH_ADDRESS tokenAddress 3000 x,
            QuoteExactInputSingle WETH_ADDRESS tokenAddress 500 x,
            QuoteExactInputSingle WETH_ADDRESS tokenAddress 10000 x])
      | Inl e3 \<Rightarrow>
          (Inl (NoLiquidity tokenAddress),
           [QuoteExactInputSingle WETH_ADDRESS tokenAddress 3000 x,
            QuoteExactInputSingle WETH_ADDRESS tokenAddress 500 x,
            QuoteExactInputSingle WETH_ADDRESS tokenAddress 10000 x]))))"
  by (simp add: findBestFeeAndQuote_def getQuote_def io_defs Let_def split: sum.splits)

text \<open>
  In \<open>liquidWorld\<close> the tier 500 quotes 3000 per unit and the tier 3000 quotes 2000: the
  tier 3000 is returned. In \<open>dryWorld\<close> no tier quotes.
\<close>

theorem findBestFeeAndQuote_first_liquid_tier_witness:
  "findBestFeeAndQuote liquidWorld EIGEN 100 [] =
     (Inr \<lparr>fq_fee = 3000, quote = 200000, amountOutMin = 190000\<rparr>,
      [QuoteExactInputSingle WETH_ADDRESS EIGEN 3000 100])
   \<and> quoteExactInputSingle liquidWorld [] WETH_ADDRESS EIGEN 500 100 = Inr 300000
   \<and> fst (findBestFeeAndQuote dryWorld EIGEN 100 []) = Inl (NoLiquidity EIGEN)"
  using findBestFeeAndQuote_first_liquid_tier [of liquidWorld EIGEN 100 "[]"]
    findBestFeeAndQuote_first_liquid_tier [of dryWorld EIGEN 100 "[]"]
  by (simp add: liquidWorld_def dryWorld_def minOutput_def bigint_div_def)

subsection \<open>Balance-safe sizing\<close>

lemma io_bind_run:
  "m h = (Inr x, es) \<Longrightarrow> io_bind m f h = (fst (f x (h @ es)), es @ snd (f x (h @ es)))"
  "m h = (Inl e, es) \<Longrightarrow> io_bind m f h = (Inl e, es)"
  by (simp_all add: io_bind_def split: prod.splits)

lemma io_catch_run:
  "m h = (Inr x, es) \<Longrightarrow> io_catch m f h = (Inr x, es)"
  "m h = (Inl e, es) \<Longrightarrow> io_catch m f h = (fst (f e (h @ es)), es @ snd (f e (h @ es)))"
  by (simp_all add: io_catch_def split: prod.splits)

lemma ethSearch_returns:
  "\<exists>b es. ethSearch w tokenAddress target fee' n low high best h = (Inr b, es)"
proof (induction n arbitrary: low high best h)
  case 0
  show ?case by (simp add: io_return_def)
next
  case (Suc n)
  let ?mid = "bigint_div (low + high) 2"
  let ?step = "io_catch
           (io_bind (getQuote w WETH_ADDRESS tokenAddress fee' ?mid) (\<lambda>quote'.
              io_return (if quote' \<ge> target
                         then (low, ?mid - 1, ?mid)
                         else (?mid + 1, high, best))))
           (\<lambda>e. io_return (?mid + 1, high, best))"
  have "\<exists>l' h' b' es. ?step h = (Inr (l', h', b'), es)"
    by (cases "quoteExactInputSingle w h WETH_ADDRESS tokenAddress fee' ?mid")
       (simp_all add: getQuote_def io_defs)
  then obtain l' h' b' es where step: "?step h = (Inr (l', h', b'), es)"
    by blast
  from Suc.IH [of l' h' b' "h @ es"] obtain b es' where
    "ethSearch w tokenAddress target fee' n l' h' b' (h @ es) = (Inr b, es')" by blast
  with step show ?case
    by (simp add: Let_def io_bind_run)
qed

lemma calculateEthForTokenAmount_returns:
  "\<exists>x f es. calculateEthForTokenAmount w tokenAddress target h = (Inr (x, f), es)"
proof -
  obtain b es where
    "ethSearch w tokenAddress target 3000 20 1000000000000000 100000000000000000
       100000000000000000 h = (Inr b, es)"
    using ethSearch_returns by blast
  then show ?thesis
    by (simp add: calculateEthForTokenAmount_def io_bind_run io_catch_run io_return_def)
qed

lemma findBestFeeAndQuote_error:
  "fst (findBestFeeAndQuote w tokenAddress x h) = Inl e \<Longrightarrow> e = NoLiquidity tokenAddress"
  by (auto simp: findBestFeeAndQuote_def getQuote_def io_defs Let_def split: sum.splits)

text \<open>
  C1, as amended. Let \<open>G\<close> be the reserve computed from the gas configuration for 200000 gas
  at standard urgency. When \<open>B \<le> G\<close>, \<^verbatim>\<open>calculateSafeTradeAmount\<close> throws the insufficient-ETH
  error. When \<open>B > G\<close>: with a target it returns the input that \<^verbatim>\<open>calculateEthForTokenAmount\<close>
  finds for the target, capped at \<open>B - G\<close>, with the fee tier found with it; without one
  (\<^verbatim>\<open>undefined\<close> or \<^verbatim>\<open>0n\<close>) it returns \<open>B - G\<close> with the tier \<^verbatim>\<open>findBestFeeAndQuote\<close> finds
  for that amount, and throws the no-liquidity error when that finds none. Whatever it
  returns has \<open>tradeAmount + gasReserve \<le> B\<close>, \<open>tradeAmount \<le> B - G\<close> and \<open>gasReserve = G\<close>.
\<close>

theorem calculateSafeTradeAmount_within_balance:
  assumes "getGasConfig (gasSettings t) w 200000 Standard h = (Inr gasConfig, es0)"
    and "G = totalReserve gasConfig"
  shows "(B \<le> G \<longrightarrow>
            calculateSafeTradeAmount t w tokenAddress B target h = (Inl (InsufficientETH G), es0))
       \<and> (G < B \<and> bigint_or target 0 \<noteq> 0 \<longrightarrow>
            (\<exists>ethNeeded fee' es1.
               calculateEthForTokenAmount w tokenAddress (bigint_or target 0) (h @ es0) =
                 (Inr (ethNeeded, fee'), es1)
               \<and> calculateSafeTradeAmount t w tokenAddress B target h =
                   (Inr \<lparr>tradeAmount = min ethNeeded (B - G), st_fee = fee', gasReserve = G\<rparr>,
                    es0 @ es1)))
       \<and> (G < B \<and> bigint_or target 0 = 0 \<longrightarrow>
            calculateSafeTradeAmount t w tokenAddress B target h =
              (case findBestFeeAndQuote w tokenAddress (B - G) (h @ es0) of
                 (Inr q, es1) \<Rightarrow>
                   (Inr \<lparr>tradeAmount = B - G, st_fee = fq_fee q, gasReserve = G\<rparr>, es0 @ es1)
               | (Inl e, es1) \<Rightarrow> (Inl (NoLiquidity tokenAddress), es0 @ es1)))
       \<and> (G < B \<longrightarrow>
            (case fst (calculateSafeTradeAmount t w tokenAddress B target h) of
               Inr r \<Rightarrow> tradeAmount r + gasReserve r \<le> B \<and> tradeAmount r \<le> B - G
                        \<and> gasReserve r = G
             | Inl e \<Rightarrow> e = NoLiquidity tokenAddress \<and> bigint_or target 0 = 0))"
proof -
  let ?run = "calculateSafeTradeAmount t w tokenAddress B target h"
  let ?quote = "findBestFeeAndQuote w tokenAddress (B - G) (h @ es0)"
  have low: "?run = (Inl (InsufficientETH G), es0)" if "B \<le> G"
    using assms that by (simp add: calculateSafeTradeAmount_def Let_def io_bind_run io_throw_def)
  have target: "\<exists>ethNeeded fee' es1.
      calculateEthForTokenAmount w tokenAddress (bigint_or target 0) (h @ es0) =
        (Inr (ethNeeded, fee'), es1)
      \<and> ?run = (Inr \<lparr>tradeAmount = min ethNeeded (B - G), st_fee = fee', gasReserve = G\<rparr>,
                es0 @ es1)"
    if "G < B" and "bigint_or target 0 \<noteq> 0"
  proof -
    obtain x f es where
      "calculateEthForTokenAmount w tokenAddress (bigint_or target 0) (h @ es0) = (Inr (x, f), es)"
      using calculateEthForTokenAmount_returns by blast
    with assms that show ?thesis
      by (simp add: calculateSafeTradeAmount_def Let_def io_bind_run io_return_def min_def)
  qed
  have notarget: "?run =
      (case ?quote of
         (Inr q, es1) \<Rightarrow>
           (Inr \<lparr>tradeAmount = B - G, st_fee = fq_fee q, gasReserve = G\<rparr>, es0 @ es1)
       | (Inl e, es1) \<Rightarrow> (Inl (NoLiquidity tokenAddress), es0 @ es1))"
    if "G < B" and "bigint_or target 0 = 0"
  proof (cases "?quote")
    case (Pair r es1)
    show ?thesis
    proof (cases r)
      case (Inl e)
      with Pair findBestFeeAndQuote_error [of w tokenAddress "B - G" "h @ es0" e]
      have "?quote = (Inl (NoLiquidity tokenAddress), es1)" by simp
      with assms that show ?thesis
        by (simp add: calculateSafeTradeAmount_def Let_def io_bind_run)
    next
      case (Inr q)
      with Pair assms that show ?thesis
        by (simp add: calculateSafeTradeAmount_def Let_def io_bind_run io_return_def)
    qed
  qed
  have bound: "case fst ?run of
        Inr r \<Rightarrow> tradeAmount r + gasReserve r \<le> B \<and> tradeAmount r \<le> B - G \<and> gasReserve r = G
      | Inl e \<Rightarrow> e = NoLiquidity tokenAddress \<and> bigint_or target 0 = 0"
    if gb: "G < B"
  proof (cases "bigint_or target 0 = 0")
    case True
    from notarget [OF gb True] True show ?thesis
      by (auto split: prod.splits sum.splits)
  next
    case False
    from target [OF gb False] show ?thesis by auto
  qed
  from low bound target notarget show ?thesis by blast
qed


lemma exampleTrader_gasConfig:
  "getFeeData w = (\<lambda>h. Inr (Some 20000000000)) \<Longrightarrow>
   getBlockBaseFee w = (\<lambda>h. Inr (Some 10000000000)) \<Longrightarrow>
   getGasConfig (gasSettings exampleTrader) w 200000 Standard h =
     (Inr \<lparr>gasLimit = 240000, maxFeePerGas = Some 14400000000,
            maxPriorityFeePerGas = Some 2400000000, gasPrice = None, txType = Some 2\<rparr>,
      [GetFeeData, GetBlock])"
  by (simp add: getGasConfig_def getEIP1559FeeData_def exampleTrader_def createGasManager_def
      getUrgencyMultiplier_def parseUnits_gwei_def bigint_or_def bigint_div_def gwei_def
      io_defs Let_def)

text \<open>
  With a reserve of 0.003656 ETH: a balance of 0.001 ETH is refused; 1 ETH without a target
  trades 0.996344 ETH; 1 ETH with a target of 20 tokens trades the input the search finds,
  about 0.01 ETH; and 0.05 ETH with a target out of reach trades the cap, 0.046344 ETH.
\<close>

theorem calculateSafeTradeAmount_within_balance_witness:
  "calculateSafeTradeAmount exampleTrader liquidWorld EIGEN 1000000000000000 None [] =
     (Inl (InsufficientETH 3656000000000000), [GetFeeData, GetBlock])
   \<and> fst (calculateSafeTradeAmount exampleTrader liquidWorld EIGEN 1000000000000000000 None []) =
       Inr \<lparr>tradeAmount = 996344000000000000, st_fee = 3000, gasReserve = 3656000000000000\<rparr>
   \<and> fst (calculateSafeTradeAmount exampleTrader liquidWorld EIGEN 1000000000000000000
            (Some 20000000000000000000) []) =
       Inr \<lparr>tradeAmount = 10000085830688475, st_fee = 3000, gasReserve = 3656000000000000\<rparr>
   \<and> fst (calculateSafeTradeAmount exampleTrader liquidWorld EIGEN 50000000000000000
            (Some 1000000000000000000000000) []) =
       Inr \<lparr>tradeAmount = 46344000000000000, st_fee = 3000, gasReserve = 3656000000000000\<rparr>"
proof -
  have cfg: "getGasConfig (gasSettings exampleTrader) liquidWorld 200000 Standard [] =
     (Inr \<lparr>gasLimit = 240000, maxFeePerGas = Some 14400000000,
            maxPriorityFeePerGas = Some 2400000000, gasPrice = None, txType = Some 2\<rparr>,
      [GetFeeData, GetBlock])"
    by (rule exampleTrader_gasConfig) (simp_all add: liquidWorld_def)
  have G: "(3656000000000000::int) = totalReserve \<lparr>gasLimit = 240000, maxFeePerGas = Some 14400000000,
            maxPriorityFeePerGas = Some 2400000000, gasPrice = None, txType = Some 2\<rparr>"
    by (simp add: totalReserve_def bigint_or_def)
  have q: "findBestFeeAndQuote liquidWorld EIGEN 996344000000000000 [GetFeeData, GetBlock]
      = (Inr \<lparr>fq_fee = 3000, quote = 1992688000000000000000,
              amountOutMin = minOutput 1992688000000000000000 5\<rparr>,
         [QuoteExactInputSingle WETH_ADDRESS EIGEN 3000 996344000000000000])"
    by (simp add: findBestFeeAndQuote_def getQuote_def liquidWorld_def io_defs)
  have near: "fst (calculateEthForTokenAmount liquidWorld EIGEN 20000000000000000000
                     ([] @ [GetFeeData, GetBlock])) = Inr (10000085830688475, 3000)"
    by code_simp
  have far: "fst (calculateEthForTokenAmount liquidWorld EIGEN 1000000000000000000000000
                    ([] @ [GetFeeData, GetBlock])) = Inr (100000000000000000, 3000)"
    by code_simp
  note inst = calculateSafeTradeAmount_within_balance [OF cfg G, where tokenAddress = EIGEN]
  from inst [of 1000000000000000 None]
  have a: "calculateSafeTradeAmount exampleTrader liquidWorld EIGEN 1000000000000000 None [] =
     (Inl (InsufficientETH 3656000000000000), [GetFeeData, GetBlock])"
    by simp
  from inst [of 1000000000000000000 None] q
  have b: "fst (calculateSafeTradeAmount exampleTrader liquidWorld EIGEN 1000000000000000000 None [])
      = Inr \<lparr>tradeAmount = 996344000000000000, st_fee = 3000, gasReserve = 3656000000000000\<rparr>"
    by (simp add: bigint_or_def)
  from inst [of 1000000000000000000 "Some 20000000000000000000"] near
  have c: "fst (calculateSafeTradeAmount exampleTrader liquidWorld EIGEN 1000000000000000000
            (Some 20000000000000000000) []) =
       Inr \<lparr>tradeAmount = 10000085830688475, st_fee = 3000, gasReserve = 3656000000000000\<rparr>"
    by (auto simp: bigint_or_def)
  from inst [of 50000000000000000 "Some 1000000000000000000000000"] far
  have d: "fst (calculateSafeTradeAmount exampleTrader liquidWorld EIGEN 50000000000000000
            (Some 1000000000000000000000000) []) =
       Inr \<lparr>tradeAmount = 46344000000000000, st_fee = 3000, gasReserve = 3656000000000000\<rparr>"
    by (auto simp: bigint_or_def)
  from a b c d show ?thesis by simp
qed

text \<open>
  The claim as stated fails where the balance exceeds the reserve and no fee tier quotes:
  with 1 ETH, a reserve of 0.003656 ETH and no target, the call throws the no-liquidity
  error and returns no trade amount.
\<close>

theorem calculateSafeTradeAmount_no_liquidity:
  "map_sum (\<lambda>e. e) totalReserve
       (fst (getGasConfig (gasSettings exampleTrader) dryWorld 200000 Standard []))
     = Inr 3656000000000000
   \<and> (3656000000000000::int) < 1000000000000000000
   \<and> fst (calculateSafeTradeAmount exampleTrader dryWorld EIGEN 1000000000000000000 None [])
     = Inl (NoLiquidity EIGEN)"
proof -
  have cfg: "getGasConfig (gasSettings exampleTrader) dryWorld 200000 Standard [] =
     (Inr \<lparr>gasLimit = 240000, maxFeePerGas = Some 14400000000,
            maxPriorityFeePerGas = Some 2400000000, gasPrice = None, txType = Some 2\<rparr>,
      [GetFeeData, GetBlock])"
    by (rule exampleTrader_gasConfig) (simp_all add: dryWorld_def)
  have q: "findBestFeeAndQuote dryWorld EIGEN x h =
      (Inl (NoLiquidity EIGEN),
       [QuoteExactInputSingle WETH_ADDRESS EIGEN 3000 x,
        QuoteExactInputSingle WETH_ADDRESS EIGEN 500 x,
        QuoteExactInputSingle WETH_ADDRESS EIGEN 10000 x])" for x h
    by (simp add: findBestFeeAndQuote_def getQuote_def dryWorld_def io_defs)
  show ?thesis
    by (simp add: calculateSafeTradeAmount_def cfg q totalReserve_def bigint_or_def Let_def
        io_bind_run)
qed

subsection \<open>What a run emits\<close>

lemma emits_onlyD: "emits_only P m \<Longrightarrow> list_all P (snd (m h))"
  by (simp add: emits_only_def)

lemma emits_only_return: "emits_only P (io_return x)"
  by (simp add: emits_only_def io_return_def)

lemma emits_only_throw: "emits_only P (io_throw e)"
  by (simp add: emits_only_def io_throw_def)

lemma emits_only_read: "emits_only P (io_read f)"
  by (simp add: emits_only_def io_read_def)

lemma emits_only_emit: "P ev \<Longrightarrow> emits_only P (io_emit ev)"
  by (simp add: emits_only_def io_emit_def)

lemma emits_only_call: "P ev \<Longrightarrow> emits_only P (io_call ev f)"
  by (simp add: emits_only_def io_call_def)

lemma emits_only_some: "emits_only P (io_some x e)"
  by (cases x) (simp_all add: io_some_def emits_only_return emits_only_throw)

lemma emits_only_of: "emits_only P (io_of r)"
  by (cases r) (simp_all add: io_of_def emits_only_return emits_only_throw)

lemma emits_only_bind:
  assumes "emits_only P m" and "\<And>x. emits_only P (f x)"
  shows "emits_only P (io_bind m f)"
  unfolding emits_only_def
proof
  fix h
  obtain r es where m: "m h = (r, es)" by (cases "m h")
  from assms(1) m have es: "list_all P es"
    by (metis emits_onlyD snd_conv)
  show "list_all P (snd (io_bind m f h))"
  proof (cases r)
    case (Inl e)
    with m es show ?thesis by (simp add: io_bind_run)
  next
    case (Inr x)
    with m es emits_onlyD [OF assms(2), of x "h @ es"] show ?thesis
      by (simp add: io_bind_run)
  qed
qed

lemma emits_only_catch:
  assumes "emits_only P m" and "\<And>e. emits_only P (f e)"
  shows "emits_only P (io_catch m f)"
  unfolding emits_only_def
proof
  fix h
  obtain r es where m: "m h = (r, es)" by (cases "m h")
  from assms(1) m have es: "list_all P es"
    by (metis emits_onlyD snd_conv)
  show "list_all P (snd (io_catch m f h))"
  proof (cases r)
    case (Inr x)
    with m es show ?thesis by (simp add: io_catch_run)
  next
    case (Inl e)
    with m es emits_onlyD [OF assms(2), of e "h @ es"] show ?thesis
      by (simp add: io_catch_run)
  qed
qed

lemma emits_only_when: "(c \<Longrightarrow> emits_only P m) \<Longrightarrow> emits_only P (io_when c m)"
  by (simp add: io_when_def emits_only_return)

lemmas emits_only_intros =
  emits_only_return emits_only_throw emits_only_read emits_only_emit emits_only_call
  emits_only_some emits_only_of emits_only_bind emits_only_catch emits_only_when

lemma getGasConfig_emits:
  assumes "P GetFeeData" and "P GetBlock"
  shows "emits_only P (getGasConfig s w g u)"
  unfolding getGasConfig_def getLegacyGasPrice_def getEIP1559FeeData_def Let_def
  using assms by (auto intro!: emits_only_intros split: option.splits)

lemma findBestFeeAndQuote_from_emits:
  assumes "\<And>f. P (QuoteExactInputSingle WETH_ADDRESS tokenAddress f x)"
  shows "emits_only P (findBestFeeAndQuote_from w tokenAddress x tiers)"
  by (induction tiers) (auto intro!: emits_only_intros assms simp: getQuote_def Let_def)

lemma findBestFeeAndQuote_emits:
  assumes "\<And>f. P (QuoteExactInputSingle WETH_ADDRESS tokenAddress f x)"
  shows "emits_only P (findBestFeeAndQuote w tokenAddress x)"
  unfolding findBestFeeAndQuote_def by (rule findBestFeeAndQuote_from_emits) (rule assms)

lemma estimateGasLoop_emits:
  "P (EstimateGas c v) \<Longrightarrow> (\<And>d. P (Sleep d)) \<Longrightarrow>
   emits_only P (estimateGasLoop w c v retries i lastError)"
proof (induction w c v retries i lastError rule: estimateGasLoop.induct)
  case (1 w c v retries i lastError)
  show ?case
    by (subst estimateGasLoop.simps) (auto intro!: emits_only_intros 1)
qed

lemma estimateGasWithRetry_emits:
  "P (EstimateGas c v) \<Longrightarrow> (\<And>d. P (Sleep d)) \<Longrightarrow>
   emits_only P (estimateGasWithRetry w c v retries)"
  unfolding estimateGasWithRetry_def by (rule estimateGasLoop_emits)

lemma estimateGasWithRetry_once:
  "estimateGasWithRetry w c v 1 h =
     (case estimateGas w h c v of
        Inr g \<Rightarrow> (Inr g, [EstimateGas c v])
      | Inl e \<Rightarrow> (Inl (GasEstimationFailed 1 e), [EstimateGas c v]))"
  by (simp add: estimateGasWithRetry_def estimateGasLoop.simps io_defs split: sum.splits)

lemma estimateGasWithRetry_once_emits:
  assumes "P (EstimateGas c v)"
  shows "emits_only P (estimateGasWithRetry w c v (Suc 0))"
  using assms estimateGasWithRetry_once [of w c v]
  by (auto simp: emits_only_def split: sum.splits)

lemma retryLoop_emits:
  "(\<And>j. k \<le> j \<Longrightarrow> emits_only P (body j)) \<Longrightarrow> (\<And>j e. emits_only P (onError j e)) \<Longrightarrow>
   emits_only P (retryLoop maxRetries body onError giveUp k lastError)"
proof (induction maxRetries body onError giveUp k lastError rule: retryLoop.induct)
  case (1 maxRetries body onError giveUp attempt lastError)
  show ?case
    by (subst retryLoop.simps) (auto intro!: emits_only_intros 1)
qed

lemma retryLoop_returns:
  "(\<And>j e h. fst (onError j e h) = Inr ()) \<Longrightarrow>
   \<exists>r. fst (retryLoop maxRetries body onError giveUp k lastError h) = Inr r"
proof (induction maxRetries body onError giveUp k lastError arbitrary: h rule: retryLoop.induct)
  case (1 maxRetries body onError giveUp attempt lastError)
  show ?case
  proof (cases "attempt \<le> maxRetries")
    case False
    then show ?thesis by (subst retryLoop.simps) (simp add: io_return_def)
  next
    case True
    obtain r es where b: "body attempt h = (r, es)" by (cases "body attempt h")
    show ?thesis
    proof (cases r)
      case (Inr x)
      with b True show ?thesis by (subst retryLoop.simps) (simp add: io_catch_run)
    next
      case (Inl e)
      obtain es' where o: "onError attempt e (h @ es) = (Inr (), es')"
        using "1.prems" [of attempt e "h @ es"] by (metis prod.collapse)
      have "\<exists>r'. fst (retryLoop maxRetries body onError giveUp (Suc attempt) (Some e)
                     (h @ es @ es')) = Inr r'"
        by (rule "1.IH" [OF True]) (rule "1.prems")
      then obtain r' where
        "fst (retryLoop maxRetries body onError giveUp (Suc attempt) (Some e) (h @ es @ es')) = Inr r'"
        by blast
      with b True Inl o show ?thesis
        by (subst retryLoop.simps) (simp add: io_catch_run io_bind_run)
    qed
  qed
qed


lemma bind_emit_events:
  assumes "\<And>u. emits_only P (f u)"
  shows "\<exists>rest. snd (io_bind (io_emit ev) f h) = ev # rest \<and> list_all P rest"
  using emits_onlyD [OF assms, of "()" "h @ [ev]"]
  by (auto simp: io_bind_def io_emit_def split: prod.splits)

lemma retryLoop_two:
  "retryLoop 2 body onError giveUp 1 None =
     io_catch (body 1) (\<lambda>e. io_bind (onError 1 e) (\<lambda>_.
       io_catch (body 2) (\<lambda>e'. io_bind (onError 2 e') (\<lambda>_. io_return (giveUp (Some e'))))))"
  by (simp add: retryLoop.simps numeral_2_eq_2)

lemma retryLoop_three:
  "retryLoop 3 body onError giveUp 1 None =
     io_catch (body 1) (\<lambda>e. io_bind (onError 1 e) (\<lambda>_.
       io_catch (body 2) (\<lambda>e'. io_bind (onError 2 e') (\<lambda>_.
         io_catch (body 3) (\<lambda>e''. io_bind (onError 3 e'') (\<lambda>_.
           io_return (giveUp (Some e''))))))))"
  by (simp add: retryLoop.simps numeral_2_eq_2 numeral_3_eq_3)

subsection \<open>The primary venue\<close>

lemma swapEthForTokenSimple_try_events:
  "\<exists>rest. snd (swapEthForTokenSimple_try lib t w a m s n k h)
            = ConsoleLog (SimpleSwapAttempt k n m a) # rest \<and> list_all isQuiet rest"
  unfolding swapEthForTokenSimple_try_def
  by (rule bind_emit_events)
     (auto intro!: emits_only_intros getGasConfig_emits findBestFeeAndQuote_emits
        estimateGasWithRetry_once_emits simp: isQuiet_def Let_def split: option.splits)

lemma swapEthForTokenSimple_try_result:
  "swapEthForTokenSimple_try lib t w a m s n k h = (Inr res, es) \<Longrightarrow> success res \<and> error res = None"
  unfolding swapEthForTokenSimple_try_def
  by (auto simp: io_defs Let_def split: if_splits option.splits prod.splits sum.splits)


lemma quiet_filters:
  "list_all isQuiet es \<Longrightarrow>
   filter isSleep es = [] \<and> filter isPrimaryAttempt es = [] \<and> filter isFallbackEvent es = []"
  by (induction es) (auto simp: isQuiet_def)

lemma swapEthForTokenSimple_unrolled:
  "swapEthForTokenSimple lib t w a m s h =
     (case swapEthForTokenSimple_try lib t w a m s 2 1 h of
        (Inr res, es1) \<Rightarrow> (Inr res, es1)
      | (Inl e1, es1) \<Rightarrow>
          (case swapEthForTokenSimple_try lib t w a m s 2 2
                  (h @ es1 @ [ConsoleLog (SimpleSwapAttemptFailed 1 e1), Sleep 1000]) of
             (Inr res, es2) \<Rightarrow>
               (Inr res, es1 @ [ConsoleLog (SimpleSwapAttemptFailed 1 e1), Sleep 1000] @ es2)
           | (Inl e2, es2) \<Rightarrow>
               (Inr \<lparr>success = False, transactionHash = None, toTokenAmount = None,
                     error = Some (AfterAttempts 2 e2)\<rparr>,
                es1 @ [ConsoleLog (SimpleSwapAttemptFailed 1 e1), Sleep 1000] @ es2
                  @ [ConsoleLog (SimpleSwapAttemptFailed 2 e2)])))"
  unfolding swapEthForTokenSimple_def Let_def retryLoop_two
  by (simp add: io_defs split: prod.splits sum.splits)

text \<open>
  C2, as amended. \<^verbatim>\<open>UniswapTrader.swapEthForToken\<close> always returns a result. It makes one
  attempt, or two with one sleep of 1000 ms between them; a result that is not a success
  comes after exactly two attempts and carries \<^verbatim>\<open>After 2 attempts: ...\<close>. An address that
  fails \<^verbatim>\<open>ethers.isAddress\<close> is retried like every other failure.
\<close>

theorem UniswapTrader_swapEthForToken_two_attempts:
  "(let run = UniswapTrader_swapEthForToken lib t w a m s h;
        attempts = filter isPrimaryAttempt (snd run);
        sleeps = filter isSleep (snd run);
        first = ConsoleLog (SimpleSwapAttempt 1 2 m a);
        second = ConsoleLog (SimpleSwapAttempt 2 2 m a)
    in \<exists>res. fst run = Inr res \<and>
         (success res \<and> error res = None \<and> attempts = [first] \<and> sleeps = []
          \<or> success res \<and> error res = None \<and> attempts = [first, second] \<and> sleeps = [Sleep 1000]
          \<or> \<not> success res \<and> (\<exists>e. error res = Some (AfterAttempts 2 e))
              \<and> attempts = [first, second] \<and> sleeps = [Sleep 1000]))
   \<and> (\<not> isAddress lib a \<longrightarrow>
        UniswapTrader_swapEthForToken lib t w a m s h =
          (Inr \<lparr>success = False, transactionHash = None, toTokenAmount = None,
                error = Some (AfterAttempts 2 (InvalidTokenAddress a))\<rparr>,
           [ConsoleLog (SimpleSwapAttempt 1 2 m a),
            ConsoleLog (SimpleSwapAttemptFailed 1 (InvalidTokenAddress a)),
            Sleep 1000,
            ConsoleLog (SimpleSwapAttempt 2 2 m a),
            ConsoleLog (SimpleSwapAttemptFailed 2 (InvalidTokenAddress a))]))"
proof
  let ?body = "swapEthForTokenSimple_try lib t w a m s 2"
  obtain r1 es1 where b1: "?body 1 h = (r1, es1)" by (cases "?body 1 h")
  obtain rest1 where "es1 = ConsoleLog (SimpleSwapAttempt 1 2 m a) # rest1" and "list_all isQuiet rest1"
    using swapEthForTokenSimple_try_events [of lib t w a m s 2 1 h] b1 by auto
  then have f1: "filter isPrimaryAttempt es1 = [ConsoleLog (SimpleSwapAttempt 1 2 m a)]"
      "filter isSleep es1 = []"
    using quiet_filters [of rest1] by simp_all
  show "let run = UniswapTrader_swapEthForToken lib t w a m s h;
        attempts = filter isPrimaryAttempt (snd run);
        sleeps = filter isSleep (snd run);
        first = ConsoleLog (SimpleSwapAttempt 1 2 m a);
        second = ConsoleLog (SimpleSwapAttempt 2 2 m a)
    in \<exists>res. fst run = Inr res \<and>
         (success res \<and> error res = None \<and> attempts = [first] \<and> sleeps = []
          \<or> success res \<and> error res = None \<and> attempts = [first, second] \<and> sleeps = [Sleep 1000]
          \<or> \<not> success res \<and> (\<exists>e. error res = Some (AfterAttempts 2 e))
              \<and> attempts = [first, second] \<and> sleeps = [Sleep 1000])"
  proof (cases r1)
    case (Inr res)
    with b1 have "UniswapTrader_swapEthForToken lib t w a m s h = (Inr res, es1)"
      by (simp add: UniswapTrader_swapEthForToken_def swapEthForTokenSimple_unrolled)
    moreover from b1 Inr have "success res \<and> error res = None"
      using swapEthForTokenSimple_try_result by blast
    ultimately show ?thesis
      using f1 by (simp add: Let_def)
  next
    case (Inl e1)
    let ?h2 = "h @ es1 @ [ConsoleLog (SimpleSwapAttemptFailed 1 e1), Sleep 1000]"
    obtain r2 es2 where b2: "?body 2 ?h2 = (r2, es2)" by (cases "?body 2 ?h2")
    obtain rest2 where "es2 = ConsoleLog (SimpleSwapAttempt 2 2 m a) # rest2"
      and "list_all isQuiet rest2"
      using swapEthForTokenSimple_try_events [of lib t w a m s 2 2 ?h2] b2 by auto
    then have f2: "filter isPrimaryAttempt es2 = [ConsoleLog (SimpleSwapAttempt 2 2 m a)]"
        "filter isSleep es2 = []"
      using quiet_filters [of rest2] by simp_all
    show ?thesis
    proof (cases r2)
      case (Inr res)
      with b1 b2 Inl have "UniswapTrader_swapEthForToken lib t w a m s h =
          (Inr res, es1 @ [ConsoleLog (SimpleSwapAttemptFailed 1 e1), Sleep 1000] @ es2)"
        by (simp add: UniswapTrader_swapEthForToken_def swapEthForTokenSimple_unrolled)
      moreover from b2 Inr have "success res \<and> error res = None"
        using swapEthForTokenSimple_try_result by blast
      ultimately show ?thesis
        using f1 f2 by (simp add: Let_def)
    next
      case (Inl e2)
      with b1 b2 \<open>r1 = Inl e1\<close> have "UniswapTrader_swapEthForToken lib t w a m s h =
          (Inr \<lparr>success = False, transactionHash = None, toTokenAmount = None,
                 error = Some (AfterAttempts 2 e2)\<rparr>,
           es1 @ [ConsoleLog (SimpleSwapAttemptFailed 1 e1), Sleep 1000] @ es2
             @ [ConsoleLog (SimpleSwapAttemptFailed 2 e2)])"
        by (simp add: UniswapTrader_swapEthForToken_def swapEthForTokenSimple_unrolled)
      then show ?thesis
        using f1 f2 by (simp add: Let_def)
    qed
  qed
next
  show "\<not> isAddress lib a \<longrightarrow>
        UniswapTrader_swapEthForToken lib t w a m s h =
          (Inr \<lparr>success = False, transactionHash = None, toTokenAmount = None,
                error = Some (AfterAttempts 2 (InvalidTokenAddress a))\<rparr>,
           [ConsoleLog (SimpleSwapAttempt 1 2 m a),
            ConsoleLog (SimpleSwapAttemptFailed 1 (InvalidTokenAddress a)),
            Sleep 1000,
            ConsoleLog (SimpleSwapAttempt 2 2 m a),
            ConsoleLog (SimpleSwapAttemptFailed 2 (InvalidTokenAddress a))])"
    by (simp add: UniswapTrader_swapEthForToken_def swapEthForTokenSimple_unrolled
        swapEthForTokenSimple_try_def io_defs)
qed


theorem UniswapTrader_swapEthForToken_two_attempts_witness:
  "\<not> isAddress exampleLib ''EIGEN''
   \<and> UniswapTrader_swapEthForToken exampleLib exampleTrader liquidWorld ''EIGEN'' ''0.1'' 3 [] =
          (Inr \<lparr>success = False, transactionHash = None, toTokenAmount = None,
                error = Some (AfterAttempts 2 (InvalidTokenAddress ''EIGEN''))\<rparr>,
           [ConsoleLog (SimpleSwapAttempt 1 2 ''0.1'' ''EIGEN''),
            ConsoleLog (SimpleSwapAttemptFailed 1 (InvalidTokenAddress ''EIGEN'')),
            Sleep 1000,
            ConsoleLog (SimpleSwapAttempt 2 2 ''0.1'' ''EIGEN''),
            ConsoleLog (SimpleSwapAttemptFailed 2 (InvalidTokenAddress ''EIGEN''))])"
  using UniswapTrader_swapEthForToken_two_attempts
          [of exampleLib exampleTrader liquidWorld "''EIGEN''" "''0.1''" 3 "[]"]
  by (simp add: exampleLib_def)

text \<open>
  The claim as stated fails. With a valid address and a token that no tier quotes, the
  executor stops after two attempts, not three, and sleeps 1000 ms, not 2000 ms and
  4000 ms.
\<close>

theorem UniswapTrader_swapEthForToken_not_three_attempts:
  "isAddress exampleLib EIGEN
   \<and> UniswapTrader_swapEthForToken exampleLib exampleTrader dryWorld EIGEN ''0.1'' 3 [] =
       (Inr \<lparr>success = False, transactionHash = None, toTokenAmount = None,
             error = Some (AfterAttempts 2 (NoLiquidity EIGEN))\<rparr>,
        [ConsoleLog (SimpleSwapAttempt 1 2 ''0.1'' EIGEN),
         GetBalance (signerAddress exampleTrader),
         QuoteExactInputSingle WETH_ADDRESS EIGEN 3000 100000000000000000,
         QuoteExactInputSingle WETH_ADDRESS EIGEN 500 100000000000000000,
         QuoteExactInputSingle WETH_ADDRESS EIGEN 10000 100000000000000000,
         ConsoleLog (SimpleSwapAttemptFailed 1 (NoLiquidity EIGEN)),
         Sleep 1000,
         ConsoleLog (SimpleSwapAttempt 2 2 ''0.1'' EIGEN),
         GetBalance (signerAddress exampleTrader),
         QuoteExactInputSingle WETH_ADDRESS EIGEN 3000 100000000000000000,
         QuoteExactInputSingle WETH_ADDRESS EIGEN 500 100000000000000000,
         QuoteExactInputSingle WETH_ADDRESS EIGEN 10000 100000000000000000,
         ConsoleLog (SimpleSwapAttemptFailed 2 (NoLiquidity EIGEN))])"
proof -
  have q: "findBestFeeAndQuote dryWorld EIGEN x h =
      (Inl (NoLiquidity EIGEN),
       [QuoteExactInputSingle WETH_ADDRESS EIGEN 3000 x,
        QuoteExactInputSingle WETH_ADDRESS EIGEN 500 x,
        QuoteExactInputSingle WETH_ADDRESS EIGEN 10000 x])" for x h
    by (simp add: findBestFeeAndQuote_def getQuote_def dryWorld_def io_defs)
  have addr: "isAddress exampleLib EIGEN"
    by (simp add: exampleLib_def EIGEN_def)
  have amt: "parseEther exampleLib ''0.1'' = Some 100000000000000000"
    by (simp add: exampleLib_def)
  have bal: "getBalance dryWorld = (\<lambda>h a. Inr 1000000000000000000)"
    by (simp add: dryWorld_def)
  have att: "swapEthForTokenSimple_try exampleLib exampleTrader dryWorld EIGEN ''0.1'' 3 2 k h =
      (Inl (NoLiquidity EIGEN),
       [ConsoleLog (SimpleSwapAttempt k 2 ''0.1'' EIGEN),
        GetBalance (signerAddress exampleTrader),
        QuoteExactInputSingle WETH_ADDRESS EIGEN 3000 100000000000000000,
        QuoteExactInputSingle WETH_ADDRESS EIGEN 500 100000000000000000,
        QuoteExactInputSingle WETH_ADDRESS EIGEN 10000 100000000000000000])" for k h
    by (simp add: swapEthForTokenSimple_try_def addr amt bal q io_defs Let_def)
  show ?thesis
    by (simp add: UniswapTrader_swapEthForToken_def swapEthForTokenSimple_unrolled att addr)
qed

subsection \<open>The fallback venue\<close>

lemma SimpleSwapper_unrolled:
  "SimpleSwapper_swapEthForToken lib t w a m s h =
     (case SimpleSwapper_try lib t w a m s 3 1 h of
        (Inr res, es1) \<Rightarrow> (Inr res, es1)
      | (Inl e1, es1) \<Rightarrow>
     (case SimpleSwapper_try lib t w a m s 3 2
             (h @ es1 @ [ConsoleLog (V2SwapAttemptFailed 1 e1), Sleep 2000]) of
        (Inr res, es2) \<Rightarrow>
          (Inr res, es1 @ [ConsoleLog (V2SwapAttemptFailed 1 e1), Sleep 2000] @ es2)
      | (Inl e2, es2) \<Rightarrow>
     (case SimpleSwapper_try lib t w a m s 3 3
             (h @ es1 @ [ConsoleLog (V2SwapAttemptFailed 1 e1), Sleep 2000] @ es2
                @ [ConsoleLog (V2SwapAttemptFailed 2 e2), Sleep 4000]) of
        (Inr res, es3) \<Rightarrow>
          (Inr res, es1 @ [ConsoleLog (V2SwapAttemptFailed 1 e1), Sleep 2000] @ es2
                      @ [ConsoleLog (V2SwapAttemptFailed 2 e2), Sleep 4000] @ es3)
      | (Inl e3, es3) \<Rightarrow>
          (Inr \<lparr>success = False, transactionHash = None, toTokenAmount = None,
                error = Some (AfterAttempts 3 e3)\<rparr>,
           es1 @ [ConsoleLog (V2SwapAttemptFailed 1 e1), Sleep 2000] @ es2
             @ [ConsoleLog (V2SwapAttemptFailed 2 e2), Sleep 4000] @ es3
             @ [ConsoleLog (V2SwapAttemptFailed 3 e3)]))))"
  unfolding SimpleSwapper_swapEthForToken_def Let_def retryLoop_three
  by (simp add: io_defs split: prod.splits sum.splits)

text \<open>
  C7, as amended. For a valid address and an amount below 0.0015 ETH,
  \<^verbatim>\<open>SimpleSwapper.swapEthForToken\<close> makes no network call. It makes three attempts, each
  failing with the minimum-size error, sleeps 2000 ms and 4000 ms between them, and returns
  the failure \<^verbatim>\<open>After 3 attempts: Trade amount too small: ...\<close>.
\<close>

theorem SimpleSwapper_below_minimum:
  assumes "isAddress lib a" and "parseEther lib m = Some x" and "x < 1500000000000000"
  shows "SimpleSwapper_swapEthForToken lib t w a m s h =
           (Inr \<lparr>success = False, transactionHash = None, toTokenAmount = None,
                 error = Some (AfterAttempts 3 (TradeTooSmall m))\<rparr>,
            [ConsoleLog (V2SwapAttempt 1 3 m a),
             ConsoleLog (V2SwapAttemptFailed 1 (TradeTooSmall m)),
             Sleep 2000,
             ConsoleLog (V2SwapAttempt 2 3 m a),
             ConsoleLog (V2SwapAttemptFailed 2 (TradeTooSmall m)),
             Sleep 4000,
             ConsoleLog (V2SwapAttempt 3 3 m a),
             ConsoleLog (V2SwapAttemptFailed 3 (TradeTooSmall m))])
       \<and> filter isNetworkCall (snd (SimpleSwapper_swapEthForToken lib t w a m s h)) = []"
proof -
  have att: "SimpleSwapper_try lib t w a m s 3 k h' =
      (Inl (TradeTooSmall m), [ConsoleLog (V2SwapAttempt k 3 m a)])" for k h'
    using assms by (simp add: SimpleSwapper_try_def io_defs Let_def)
  show ?thesis
    by (simp add: SimpleSwapper_unrolled att)
qed

theorem SimpleSwapper_below_minimum_witness:
  "isAddress exampleLib EIGEN \<and> parseEther exampleLib ''0.001'' = Some 1000000000000000
   \<and> fst (SimpleSwapper_swapEthForToken exampleLib exampleTrader liquidWorld EIGEN ''0.001'' 3 []) =
       Inr \<lparr>success = False, transactionHash = None, toTokenAmount = None,
            error = Some (AfterAttempts 3 (TradeTooSmall ''0.001''))\<rparr>
   \<and> filter isNetworkCall
        (snd (SimpleSwapper_swapEthForToken exampleLib exampleTrader liquidWorld EIGEN ''0.001'' 3 []))
       = []"
proof -
  have a: "isAddress exampleLib EIGEN"
    by (simp add: exampleLib_def EIGEN_def)
  have b: "parseEther exampleLib ''0.001'' = Some 1000000000000000"
    by (simp add: exampleLib_def)
  have c: "(1000000000000000::int) < 1500000000000000" by simp
  show ?thesis
    using SimpleSwapper_below_minimum [OF a b c, of exampleTrader liquidWorld 3 "[]"] a b
    by simp
qed

text \<open>
  The claim as stated fails: for 0.001 ETH the fallback venue does not fail at once. It
  logs three attempts and sleeps 2000 ms and 4000 ms before it returns.
\<close>

theorem SimpleSwapper_below_minimum_retried:
  "isAddress exampleLib EIGEN \<and> parseEther exampleLib ''0.001'' = Some 1000000000000000
   \<and> (1000000000000000::int) < 1500000000000000
   \<and> filter isSleep
        (snd (SimpleSwapper_swapEthForToken exampleLib exampleTrader liquidWorld EIGEN ''0.001'' 3 []))
       = [Sleep 2000, Sleep 4000]
   \<and> filter isFallbackAttempt
        (snd (SimpleSwapper_swapEthForToken exampleLib exampleTrader liquidWorld EIGEN ''0.001'' 3 []))
       = [ConsoleLog (V2SwapAttempt 1 3 ''0.001'' EIGEN),
          ConsoleLog (V2SwapAttempt 2 3 ''0.001'' EIGEN),
          ConsoleLog (V2SwapAttempt 3 3 ''0.001'' EIGEN)]"
proof -
  have att: "SimpleSwapper_try exampleLib exampleTrader liquidWorld EIGEN ''0.001'' 3 3 k h' =
      (Inl (TradeTooSmall ''0.001''), [ConsoleLog (V2SwapAttempt k 3 ''0.001'' EIGEN)])" for k h'
    by (simp add: SimpleSwapper_try_def exampleLib_def EIGEN_def io_defs Let_def)
  show ?thesis
    by (simp add: SimpleSwapper_unrolled att) (simp add: exampleLib_def EIGEN_def)
qed

subsection \<open>What the venues return and emit\<close>

lemma swapEthForTokenSimple_failure:
  assumes "swapEthForTokenSimple lib t w a m s h = (Inr res, es)" and "\<not> success res"
  shows "\<exists>e. error res = Some (AfterAttempts 2 e)"
  using assms swapEthForTokenSimple_try_result
  by (fastforce simp: swapEthForTokenSimple_unrolled split: prod.splits sum.splits)

lemma SimpleSwapper_try_result:
  "SimpleSwapper_try lib t w a m s n k h = (Inr res, es) \<Longrightarrow> success res \<and> error res = None"
  unfolding SimpleSwapper_try_def
  by (auto simp: io_defs Let_def split: if_splits option.splits prod.splits sum.splits)

lemma SimpleSwapper_failure:
  assumes "SimpleSwapper_swapEthForToken lib t w a m s h = (Inr res, es)" and "\<not> success res"
  shows "\<exists>e. error res = Some (AfterAttempts 3 e)"
  using assms SimpleSwapper_try_result
  by (fastforce simp: SimpleSwapper_unrolled split: prod.splits sum.splits)

lemma swapEthForTokenSimple_returns:
  "\<exists>res. fst (swapEthForTokenSimple lib t w a m s h) = Inr res"
  by (auto simp: swapEthForTokenSimple_unrolled split: prod.splits sum.splits)

lemma SimpleSwapper_returns:
  "\<exists>res. fst (SimpleSwapper_swapEthForToken lib t w a m s h) = Inr res"
  by (auto simp: SimpleSwapper_unrolled split: prod.splits sum.splits)

lemma filter_none: "list_all (\<lambda>e. \<not> P e) es \<Longrightarrow> filter P es = []"
  by (induction es) auto

lemma swapEthForTokenSimple_emits:
  "emits_only (\<lambda>e. \<not> isFallbackEvent e) (swapEthForTokenSimple lib t w a m s)"
  unfolding swapEthForTokenSimple_def Let_def
proof (rule retryLoop_emits)
  fix j
  show "emits_only (\<lambda>e. \<not> isFallbackEvent e) (swapEthForTokenSimple_try lib t w a m s 2 j)"
    unfolding swapEthForTokenSimple_try_def
    by (auto intro!: emits_only_intros getGasConfig_emits findBestFeeAndQuote_emits
        estimateGasWithRetry_once_emits simp: Let_def split: option.splits)
next
  fix j e
  show "emits_only (\<lambda>e. \<not> isFallbackEvent e)
          (io_bind (io_emit (ConsoleLog (SimpleSwapAttemptFailed j e)))
             (\<lambda>_. io_when (j < 2) (io_emit (Sleep 1000))))"
    by (auto intro!: emits_only_intros)
qed

lemma SimpleSwapper_try_events:
  "\<exists>rest. snd (SimpleSwapper_try lib t w a m s n k h)
            = ConsoleLog (V2SwapAttempt k n m a) # rest
          \<and> list_all (\<lambda>e. \<not> isFallbackAttempt e) rest"
  unfolding SimpleSwapper_try_def
  by (rule bind_emit_events)
     (auto intro!: emits_only_intros getGasConfig_emits estimateGasWithRetry_emits
        simp: Let_def split: option.splits)

lemma not_attempt_not_start: "list_all (\<lambda>e. \<not> isFallbackAttempt e) es \<Longrightarrow> filter isFallbackStart es = []"
proof (induction es)
  case Nil
  show ?case by simp
next
  case (Cons e es)
  then show ?case by (cases e rule: isFallbackStart.cases) auto
qed

lemma SimpleSwapper_later_attempts:
  "emits_only (\<lambda>e. \<not> isFallbackStart e)
     (retryLoop 3 (SimpleSwapper_try lib t w a m s 3)
        (\<lambda>attempt e.
           io_bind (io_emit (ConsoleLog (V2SwapAttemptFailed attempt e))) (\<lambda>_.
             io_when (attempt < 3) (io_emit (Sleep (2 ^ (attempt - 1) * 2000)))))
        giveUp 2 lastError)"
proof (rule retryLoop_emits)
  fix j :: nat
  assume j: "2 \<le> j"
  show "emits_only (\<lambda>e. \<not> isFallbackStart e) (SimpleSwapper_try lib t w a m s 3 j)"
    unfolding emits_only_def
  proof
    fix h
    obtain rest where r: "snd (SimpleSwapper_try lib t w a m s 3 j h)
        = ConsoleLog (V2SwapAttempt j 3 m a) # rest" "list_all (\<lambda>e. \<not> isFallbackAttempt e) rest"
      using SimpleSwapper_try_events by blast
    from not_attempt_not_start [OF r(2)] have "list_all (\<lambda>e. \<not> isFallbackStart e) rest"
      by (simp add: list_all_iff filter_empty_conv)
    with r(1) j show "list_all (\<lambda>e. \<not> isFallbackStart e) (snd (SimpleSwapper_try lib t w a m s 3 j h))"
      by simp
  qed
next
  fix j e
  show "emits_only (\<lambda>e. \<not> isFallbackStart e)
          (io_bind (io_emit (ConsoleLog (V2SwapAttemptFailed j e)))
             (\<lambda>_. io_when (j < 3) (io_emit (Sleep (2 ^ (j - 1) * 2000)))))"
    by (auto intro!: emits_only_intros)
qed

lemma SimpleSwapper_starts_once:
  "filter isFallbackStart (snd (SimpleSwapper_swapEthForToken lib t w a m s h))
     = [ConsoleLog (V2SwapAttempt 1 3 m a)]"
proof -
  let ?onError = "\<lambda>attempt e.
           io_bind (io_emit (ConsoleLog (V2SwapAttemptFailed attempt e))) (\<lambda>_.
             io_when (attempt < 3) (io_emit (Sleep (2 ^ (attempt - 1) * 2000))))"
  let ?giveUp = "\<lambda>lastError.
           \<lparr>success = False, transactionHash = None, toTokenAmount = None,
            error = Some (case lastError of
                            Some e \<Rightarrow> AfterAttempts 3 e
                          | None \<Rightarrow> UnknownErrorAfterRetries)\<rparr>"
  let ?body = "SimpleSwapper_try lib t w a m s 3"
  have run: "SimpleSwapper_swapEthForToken lib t w a m s =
      io_catch (?body 1) (\<lambda>e. io_bind (?onError 1 e) (\<lambda>_. retryLoop 3 ?body ?onError ?giveUp 2 (Some e)))"
    unfolding SimpleSwapper_swapEthForToken_def Let_def
    by (subst retryLoop.simps) (simp add: numeral_2_eq_2)
  obtain r1 es1 where b1: "?body 1 h = (r1, es1)" by (cases "?body 1 h")
  obtain rest where "es1 = ConsoleLog (V2SwapAttempt 1 3 m a) # rest"
      and "list_all (\<lambda>e. \<not> isFallbackAttempt e) rest"
    using SimpleSwapper_try_events [of lib t w a m s 3 1 h] b1 by auto
  then have f1: "filter isFallbackStart es1 = [ConsoleLog (V2SwapAttempt 1 3 m a)]"
    using not_attempt_not_start [of rest] by simp
  show ?thesis
  proof (cases r1)
    case (Inr res)
    with b1 f1 show ?thesis by (simp add: run io_catch_run)
  next
    case (Inl e)
    let ?h1 = "h @ es1 @ [ConsoleLog (V2SwapAttemptFailed 1 e), Sleep 2000]"
    have "list_all (\<lambda>e. \<not> isFallbackStart e) (snd (retryLoop 3 ?body ?onError ?giveUp 2 (Some e) ?h1))"
      by (rule emits_onlyD [OF SimpleSwapper_later_attempts])
    then have "filter isFallbackStart (snd (retryLoop 3 ?body ?onError ?giveUp 2 (Some e) ?h1)) = []"
      by (rule filter_none)
    with b1 f1 Inl show ?thesis
      by (auto simp: run io_catch_run io_defs split: prod.splits)
  qed
qed


subsection \<open>The orchestrator\<close>

lemma getEthBalance_events: "snd (getEthBalance lib t w h) = [GetBalance (signerAddress t)]"
  by (simp add: getEthBalance_def io_defs split: sum.splits)

lemma executeEthereumNetworkTrade_run:
  assumes "chainType (network tok) = ''ethereum''"
    and "enabled (hybrid_ethereum cfg)"
    and "nonEmpty (if net_id (network tok) = ''ethereum-mainnet''
                   then ETHEREUM_MAINNET_RPC_URL env else ETHEREUM_TESTNET_RPC_URL env) = Some rpcUrl"
    and "nonEmpty (ETHEREUM_PRIVATE_KEY env) = Some privateKey"
    and "connect co rpcUrl privateKey = Inr venue"
    and "nonEmpty (ETHEREUM_WALLET_ADDRESS env) = Some walletAddress"
    and "getEthBalance lib venue w h = (Inr ethBalance, es0)"
    and "\<not> parseFloat lib ethBalance < tradeAmountETH"
    and "UniswapTrader_swapEthForToken lib venue w (address tok) (numberToString lib tradeAmountETH)
           (case maxSlippage (hybrid_ethereum cfg) of None \<Rightarrow> 5 | Some s \<Rightarrow> s) (h @ es0)
         = (Inr primary, es1)"
    and "SimpleSwapper_swapEthForToken lib venue w (address tok) (numberToString lib tradeAmountETH)
           (case maxSlippage (hybrid_ethereum cfg) of None \<Rightarrow> 3 | Some s \<Rightarrow> s)
           (h @ es0 @ es1 @ [ConsoleLog (V3Failed (error primary)), ConsoleLog TryingV2Fallback])
         = (Inr fallback, es2)"
  shows "executeEthereumNetworkTrade lib cfg env co w request tok tradeAmountETH position h =
     (if success primary then
        (Inr (), es0 @ es1 @
           [TradeBuyToast (req_token request) (toFixed lib tradeAmountETH 4) (transactionHash primary),
            SavePosition position])
      else if success fallback then
        (Inr (), es0 @ es1 @ [ConsoleLog (V3Failed (error primary)), ConsoleLog TryingV2Fallback]
           @ es2 @
           [ConsoleLog V2FallbackSucceeded,
            TradeBuyToast (req_token request) (toFixed lib tradeAmountETH 4) (transactionHash fallback),
            SavePosition position])
      else
        (Inl (case error fallback of None \<Rightarrow> DexSwapFailedUndefined | Some e \<Rightarrow> DexSwapFailed e),
         es0 @ es1 @ [ConsoleLog (V3Failed (error primary)), ConsoleLog TryingV2Fallback]
           @ es2 @
           [ConsoleLog BothFailed, ConsoleLog (V3Error (error primary)),
            ConsoleLog (V2Error (error fallback))]))"
  using assms
  by (simp add: executeEthereumNetworkTrade_def io_defs Let_def)


subsection \<open>Runs in the example environments\<close>

lemma example_facts:
  "isAddress exampleLib EIGEN"
  "parseEther exampleLib ''0.1'' = Some 100000000000000000"
  "numberToString exampleLib exampleAmount = ''0.1''"
  "address exampleToken = EIGEN"
  "chainType (network exampleToken) = ''ethereum''"
  "net_id (network exampleToken) = ''ethereum-mainnet''"
  "enabled (hybrid_ethereum TRADING_CONFIG)"
  "maxSlippage (hybrid_ethereum TRADING_CONFIG) = Some 3"
  "connect (exampleCollaborators b) u k = Inr exampleTrader"
  "nonEmpty (ETHEREUM_MAINNET_RPC_URL exampleEnv) = Some ''https://rpc.example''"
  "nonEmpty (ETHEREUM_PRIVATE_KEY exampleEnv) = Some ''0xkey''"
  "nonEmpty (ETHEREUM_WALLET_ADDRESS exampleEnv) = Some ''0x52908400098527886E0F7030069857D2E4169EE7''"
  by (simp_all add: exampleLib_def exampleAmount_def EIGEN_def exampleToken_def TRADING_CONFIG_def
      exampleCollaborators_def exampleEnv_def nonEmpty_def)

lemma example_balance:
  "getBalance w = (\<lambda>h a. Inr 1000000000000000000) \<Longrightarrow>
   getEthBalance exampleLib exampleTrader w h = (Inr ''1.0'', [GetBalance (signerAddress exampleTrader)])"
  by (simp add: getEthBalance_def exampleLib_def io_defs)

lemma primary_without_pool:
  assumes "getBalance w = (\<lambda>h a. Inr 1000000000000000000)"
    and "quoteExactInputSingle w = (\<lambda>h a b f x. Inl (Thrown ''execution reverted''))"
  shows "UniswapTrader_swapEthForToken exampleLib exampleTrader w EIGEN ''0.1'' s h =
       (Inr \<lparr>success = False, transactionHash = None, toTokenAmount = None,
             error = Some (AfterAttempts 2 (NoLiquidity EIGEN))\<rparr>,
        [ConsoleLog (SimpleSwapAttempt 1 2 ''0.1'' EIGEN),
         GetBalance (signerAddress exampleTrader),
         QuoteExactInputSingle WETH_ADDRESS EIGEN 3000 100000000000000000,
         QuoteExactInputSingle WETH_ADDRESS EIGEN 500 100000000000000000,
         QuoteExactInputSingle WETH_ADDRESS EIGEN 10000 100000000000000000,
         ConsoleLog (SimpleSwapAttemptFailed 1 (NoLiquidity EIGEN)),
         Sleep 1000,
         ConsoleLog (SimpleSwapAttempt 2 2 ''0.1'' EIGEN),
         GetBalance (signerAddress exampleTrader),
         QuoteExactInputSingle WETH_ADDRESS EIGEN 3000 100000000000000000,
         QuoteExactInputSingle WETH_ADDRESS EIGEN 500 100000000000000000,
         QuoteExactInputSingle WETH_ADDRESS EIGEN 10000 100000000000000000,
         ConsoleLog (SimpleSwapAttemptFailed 2 (NoLiquidity EIGEN))])"
proof -
  have q: "findBestFeeAndQuote w EIGEN x h' =
      (Inl (NoLiquidity EIGEN),
       [QuoteExactInputSingle WETH_ADDRESS EIGEN 3000 x,
        QuoteExactInputSingle WETH_ADDRESS EIGEN 500 x,
        QuoteExactInputSingle WETH_ADDRESS EIGEN 10000 x])" for x h'
    by (simp add: findBestFeeAndQuote_def getQuote_def assms io_defs)
  have att: "swapEthForTokenSimple_try exampleLib exampleTrader w EIGEN ''0.1'' s 2 k h' =
      (Inl (NoLiquidity EIGEN),
       [ConsoleLog (SimpleSwapAttempt k 2 ''0.1'' EIGEN),
        GetBalance (signerAddress exampleTrader),
        QuoteExactInputSingle WETH_ADDRESS EIGEN 3000 100000000000000000,
        QuoteExactInputSingle WETH_ADDRESS EIGEN 500 100000000000000000,
        QuoteExactInputSingle WETH_ADDRESS EIGEN 10000 100000000000000000])" for k h'
    by (simp add: swapEthForTokenSimple_try_def example_facts assms q io_defs Let_def)
  show ?thesis
    by (simp add: UniswapTrader_swapEthForToken_def swapEthForTokenSimple_unrolled att)
qed

lemma exampleTrader_gasConfig_at:
  "getFeeData w = (\<lambda>h. Inr (Some 20000000000)) \<Longrightarrow>
   getBlockBaseFee w = (\<lambda>h. Inr (Some 10000000000)) \<Longrightarrow>
   getGasConfig (gasSettings exampleTrader) w 150000 Standard h =
     (Inr \<lparr>gasLimit = 180000, maxFeePerGas = Some 14400000000,
            maxPriorityFeePerGas = Some 2400000000, gasPrice = None, txType = Some 2\<rparr>,
      [GetFeeData, GetBlock])"
  by (simp add: getGasConfig_def getEIP1559FeeData_def exampleTrader_def createGasManager_def
      getUrgencyMultiplier_def parseUnits_gwei_def bigint_or_def bigint_div_def gwei_def
      io_defs Let_def)

lemma primary_in_liquidWorld:
  "fst (UniswapTrader_swapEthForToken exampleLib exampleTrader liquidWorld EIGEN ''0.1'' s h) =
     Inr \<lparr>success = True, transactionHash = Some ''0xaa'',
          toTokenAmount = Some (AmountOf 200000000000000000000), error = None\<rparr>"
proof -
  have q: "findBestFeeAndQuote liquidWorld EIGEN x h' =
      (Inr \<lparr>fq_fee = 3000, quote = x * 2000, amountOutMin = minOutput (x * 2000) 5\<rparr>,
       [QuoteExactInputSingle WETH_ADDRESS EIGEN 3000 x])" for x h'
    by (simp add: findBestFeeAndQuote_def getQuote_def liquidWorld_def io_defs)
  have g: "getGasConfig (gasSettings exampleTrader) liquidWorld 150000 Standard h' =
     (Inr \<lparr>gasLimit = 180000, maxFeePerGas = Some 14400000000,
            maxPriorityFeePerGas = Some 2400000000, gasPrice = None, txType = Some 2\<rparr>,
      [GetFeeData, GetBlock])" for h'
    by (rule exampleTrader_gasConfig_at) (simp_all add: liquidWorld_def)
  have w: "getBalance liquidWorld = (\<lambda>h a. Inr 1000000000000000000)"
    "estimateGas liquidWorld = (\<lambda>h c v. Inr 150000)"
    "sendTransaction liquidWorld = (\<lambda>h c opts. Inr ''0xaa'')"
    "waitReceipt liquidWorld = (\<lambda>h tx. Inr (Some \<lparr>status = Some 1, hash = ''0xaa''\<rparr>))"
    by (simp_all add: liquidWorld_def)
  have "fst (swapEthForTokenSimple_try exampleLib exampleTrader liquidWorld EIGEN ''0.1'' s 2 1 h) =
     Inr \<lparr>success = True, transactionHash = Some ''0xaa'',
          toTokenAmount = Some (AmountOf 200000000000000000000), error = None\<rparr>"
    by (simp add: swapEthForTokenSimple_try_def example_facts q g w
        estimateGasWithRetry_once [unfolded One_nat_def] io_defs Let_def)
  then show ?thesis
    by (auto simp: UniswapTrader_swapEthForToken_def swapEthForTokenSimple_unrolled
        split: prod.splits sum.splits)
qed

lemma fallback_in_v2OnlyWorld:
  "fst (SimpleSwapper_swapEthForToken exampleLib exampleTrader v2OnlyWorld EIGEN ''0.1'' s h) =
     Inr \<lparr>success = True, transactionHash = Some ''0xaa'',
          toTokenAmount = Some UnknownAmount, error = None\<rparr>"
proof -
  have g: "getGasConfig (gasSettings exampleTrader) v2OnlyWorld 150000 Standard h' =
     (Inr \<lparr>gasLimit = 180000, maxFeePerGas = Some 14400000000,
            maxPriorityFeePerGas = Some 2400000000, gasPrice = None, txType = Some 2\<rparr>,
      [GetFeeData, GetBlock])" for h'
    by (rule exampleTrader_gasConfig_at) (simp_all add: v2OnlyWorld_def liquidWorld_def)
  have w: "estimateGas v2OnlyWorld = (\<lambda>h c v. Inr 150000)"
    "sendTransaction v2OnlyWorld = (\<lambda>h c opts. Inr ''0xaa'')"
    "waitReceipt v2OnlyWorld = (\<lambda>h tx. Inr (Some \<lparr>status = Some 1, hash = ''0xaa''\<rparr>))"
    "settlesInTime v2OnlyWorld = (\<lambda>h tx. True)"
    by (simp_all add: v2OnlyWorld_def liquidWorld_def)
  have e: "estimateGasWithRetry v2OnlyWorld c v 2 h' = (Inr 150000, [EstimateGas c v])" for c v h'
    by (simp add: estimateGasWithRetry_def estimateGasLoop.simps w io_defs)
  have "fst (SimpleSwapper_try exampleLib exampleTrader v2OnlyWorld EIGEN ''0.1'' s 3 1 h) =
     Inr \<lparr>success = True, transactionHash = Some ''0xaa'',
          toTokenAmount = Some UnknownAmount, error = None\<rparr>"
    by (simp add: SimpleSwapper_try_def example_facts g w e io_defs Let_def)
  then show ?thesis
    by (auto simp: SimpleSwapper_unrolled split: prod.splits sum.splits)
qed

lemma fallback_in_dryWorld:
  "fst (SimpleSwapper_swapEthForToken exampleLib exampleTrader dryWorld EIGEN ''0.1'' s h) =
     Inr \<lparr>success = False, transactionHash = None, toTokenAmount = None,
          error = Some (AfterAttempts 3 (GasEstimationWouldFail
                    (GasEstimationFailed 2 (Thrown ''execution reverted''))))\<rparr>"
proof -
  have w: "estimateGas dryWorld = (\<lambda>h c v. Inl (Thrown ''execution reverted''))"
    by (simp add: dryWorld_def)
  have e: "estimateGasWithRetry dryWorld c v 2 h' =
      (Inl (GasEstimationFailed 2 (Thrown ''execution reverted'')),
       [EstimateGas c v, Sleep 1000, EstimateGas c v])" for c v h'
    by (simp add: estimateGasWithRetry_def estimateGasLoop.simps w io_defs)
  have d: "dateNow dryWorld = (\<lambda>h. 1700000000000)"
    by (simp add: dryWorld_def)
  have "SimpleSwapper_try exampleLib exampleTrader dryWorld EIGEN ''0.1'' s 3 k h' =
     (Inl (GasEstimationWouldFail (GasEstimationFailed 2 (Thrown ''execution reverted''))),
      [ConsoleLog (V2SwapAttempt k 3 ''0.1'' EIGEN),
       EstimateGas (SwapExactETHForTokens 0 [WETH_ADDRESS, EIGEN] (signerAddress exampleTrader)
                      1700001200) 100000000000000000,
       Sleep 1000,
       EstimateGas (SwapExactETHForTokens 0 [WETH_ADDRESS, EIGEN] (signerAddress exampleTrader)
                      1700001200) 100000000000000000])" for k h'
    by (simp add: SimpleSwapper_try_def example_facts e d io_defs Let_def)
  then show ?thesis
    by (simp add: SimpleSwapper_unrolled)
qed


subsection \<open>Slippage\<close>

lemma SimpleSwapper_emits_zero_minimum:
  "emits_only minOutIsZero (SimpleSwapper_swapEthForToken lib t w a m s)"
  unfolding SimpleSwapper_swapEthForToken_def Let_def
proof (rule retryLoop_emits)
  fix j
  show "emits_only minOutIsZero (SimpleSwapper_try lib t w a m s 3 j)"
    unfolding SimpleSwapper_try_def
    by (auto intro!: emits_only_intros getGasConfig_emits estimateGasWithRetry_emits
        simp: Let_def split: option.splits)
next
  fix j e
  show "emits_only minOutIsZero
          (io_bind (io_emit (ConsoleLog (V2SwapAttemptFailed j e)))
             (\<lambda>_. io_when (j < 3) (io_emit (Sleep (2 ^ (j - 1) * 2000)))))"
    by (auto intro!: emits_only_intros)
qed

text \<open>
  C10. Neither executor reads its \<^verbatim>\<open>slippage\<close> argument: two calls that differ only in it
  return the same result and add the same events, the submitted transactions among them,
  whatever the outside world answers. The primary venue takes its minimum output from
  \<^verbatim>\<open>findBestFeeAndQuote\<close>, which fixes 5 percent; every call the fallback venue makes to its
  router passes the minimum output 0.
\<close>

theorem swap_executors_ignore_slippage:
  "UniswapTrader_swapEthForToken lib t w a m s h = UniswapTrader_swapEthForToken lib t w a m s' h
   \<and> SimpleSwapper_swapEthForToken lib t w a m s h = SimpleSwapper_swapEthForToken lib t w a m s' h
   \<and> list_all minOutIsZero (snd (SimpleSwapper_swapEthForToken lib t w a m s h))"
proof -
  have "swapEthForTokenSimple_try lib t w a m s = swapEthForTokenSimple_try lib t w a m s'"
    by (intro ext) (simp add: swapEthForTokenSimple_try_def)
  then have "UniswapTrader_swapEthForToken lib t w a m s h
      = UniswapTrader_swapEthForToken lib t w a m s' h"
    by (simp add: UniswapTrader_swapEthForToken_def swapEthForTokenSimple_def)
  moreover have "SimpleSwapper_try lib t w a m s = SimpleSwapper_try lib t w a m s'"
    by (intro ext) (simp add: SimpleSwapper_try_def)
  then have "SimpleSwapper_swapEthForToken lib t w a m s h
      = SimpleSwapper_swapEthForToken lib t w a m s' h"
    by (simp add: SimpleSwapper_swapEthForToken_def)
  moreover have "list_all minOutIsZero (snd (SimpleSwapper_swapEthForToken lib t w a m s h))"
    by (rule emits_onlyD [OF SimpleSwapper_emits_zero_minimum])
  ultimately show ?thesis by simp
qed

theorem swap_executors_ignore_slippage_witness:
  "UniswapTrader_swapEthForToken exampleLib exampleTrader liquidWorld EIGEN ''0.1'' 1 []
     = UniswapTrader_swapEthForToken exampleLib exampleTrader liquidWorld EIGEN ''0.1'' 50 []
   \<and> SimpleSwapper_swapEthForToken exampleLib exampleTrader liquidWorld EIGEN ''0.1'' 1 []
     = SimpleSwapper_swapEthForToken exampleLib exampleTrader liquidWorld EIGEN ''0.1'' 50 []"
  using swap_executors_ignore_slippage [of exampleLib exampleTrader liquidWorld EIGEN "''0.1''" 1 "[]" 50]
  by simp

subsection \<open>Fallback\<close>

lemma start_is_fallback_event: "filter isFallbackEvent es = [] \<Longrightarrow> filter isFallbackStart es = []"
proof (induction es)
  case Nil
  show ?case by simp
next
  case (Cons e es)
  then show ?case by (cases e rule: isFallbackStart.cases) (auto split: if_splits)
qed

text \<open>
  C5. Take a trade that reaches the primary venue: an Ethereum token, trading enabled, the
  RPC URL, private key and wallet address set, the wallet built, and a balance that covers
  the amount. Name the outcome of the primary venue's run \<open>primary\<close> and its events \<open>es1\<close>.
  If the primary venue reports success, the run ends with the notification and the saved
  position, and holds no event of the fallback venue. If it reports failure, the run
  continues with one run of the fallback venue on the same token address and the same
  amount string (its events \<open>es2\<close>), and the first line of a fallback invocation occurs
  exactly once in the whole run, with that address and amount.
\<close>

theorem fallback_once_iff_primary_fails:
  assumes "chainType (network tok) = ''ethereum''"
    and "enabled (hybrid_ethereum cfg)"
    and "nonEmpty (if net_id (network tok) = ''ethereum-mainnet''
                   then ETHEREUM_MAINNET_RPC_URL env else ETHEREUM_TESTNET_RPC_URL env) = Some rpcUrl"
    and "nonEmpty (ETHEREUM_PRIVATE_KEY env) = Some privateKey"
    and "connect co rpcUrl privateKey = Inr venue"
    and "nonEmpty (ETHEREUM_WALLET_ADDRESS env) = Some walletAddress"
    and "getEthBalance lib venue w h = (Inr ethBalance, es0)"
    and "\<not> parseFloat lib ethBalance < tradeAmountETH"
    and "UniswapTrader_swapEthForToken lib venue w (address tok) (numberToString lib tradeAmountETH)
           (case maxSlippage (hybrid_ethereum cfg) of None \<Rightarrow> 5 | Some s \<Rightarrow> s) (h @ es0)
         = (Inr primary, es1)"
    and "SimpleSwapper_swapEthForToken lib venue w (address tok) (numberToString lib tradeAmountETH)
           (case maxSlippage (hybrid_ethereum cfg) of None \<Rightarrow> 3 | Some s \<Rightarrow> s)
           (h @ es0 @ es1 @ [ConsoleLog (V3Failed (error primary)), ConsoleLog TryingV2Fallback])
         = (Inr fallback, es2)"
  shows "(success primary \<longrightarrow>
            executeEthereumNetworkTrade lib cfg env co w request tok tradeAmountETH position h =
              (Inr (), es0 @ es1 @
                 [TradeBuyToast (req_token request) (toFixed lib tradeAmountETH 4) (transactionHash primary),
                  SavePosition position])
            \<and> filter isFallbackEvent
                (snd (executeEthereumNetworkTrade lib cfg env co w request tok tradeAmountETH
                        position h)) = [])
       \<and> (\<not> success primary \<longrightarrow>
            snd (executeEthereumNetworkTrade lib cfg env co w request tok tradeAmountETH position h) =
              es0 @ es1 @ [ConsoleLog (V3Failed (error primary)), ConsoleLog TryingV2Fallback]
                @ es2 @
                (if success fallback
                 then [ConsoleLog V2FallbackSucceeded,
                       TradeBuyToast (req_token request) (toFixed lib tradeAmountETH 4) (transactionHash fallback),
                       SavePosition position]
                 else [ConsoleLog BothFailed, ConsoleLog (V3Error (error primary)),
                       ConsoleLog (V2Error (error fallback))])
            \<and> filter isFallbackStart
                (snd (executeEthereumNetworkTrade lib cfg env co w request tok tradeAmountETH
                        position h))
              = [ConsoleLog (V2SwapAttempt 1 3 (numberToString lib tradeAmountETH) (address tok))])"
proof -
  note run = executeEthereumNetworkTrade_run [OF assms, where request = request and position = position]
  have e0: "es0 = [GetBalance (signerAddress venue)]"
    using getEthBalance_events [of lib venue w h] assms(7) by simp
  have "list_all (\<lambda>e. \<not> isFallbackEvent e)
          (snd (swapEthForTokenSimple lib venue w (address tok) (numberToString lib tradeAmountETH)
             (case maxSlippage (hybrid_ethereum cfg) of None \<Rightarrow> 5 | Some s \<Rightarrow> s) (h @ es0)))"
    by (rule emits_onlyD [OF swapEthForTokenSimple_emits])
  then have e1: "filter isFallbackEvent es1 = []"
    using assms(9) by (simp add: UniswapTrader_swapEthForToken_def filter_none)
  have e2: "filter isFallbackStart es2
      = [ConsoleLog (V2SwapAttempt 1 3 (numberToString lib tradeAmountETH) (address tok))]"
    using SimpleSwapper_starts_once [of lib venue w "address tok" "numberToString lib tradeAmountETH"]
      assms(10) by (metis snd_conv)
  from e1 have s1: "filter isFallbackStart es1 = []"
    by (rule start_is_fallback_event)
  show ?thesis
    using e0 e1 e2 s1 by (simp add: run)
qed


text \<open>
  In \<open>liquidWorld\<close> the primary venue succeeds and the run holds no fallback event; in
  \<open>v2OnlyWorld\<close> it fails and the fallback venue is started once, for the same token and
  amount.
\<close>

theorem fallback_once_iff_primary_fails_witness:
  "filter isFallbackEvent
     (snd (executeEthereumNetworkTrade exampleLib TRADING_CONFIG exampleEnv (exampleCollaborators 1)
             liquidWorld exampleRequest exampleToken exampleAmount examplePosition [])) = []
   \<and> filter isFallbackStart
       (snd (executeEthereumNetworkTrade exampleLib TRADING_CONFIG exampleEnv (exampleCollaborators 1)
               v2OnlyWorld exampleRequest exampleToken exampleAmount examplePosition []))
     = [ConsoleLog (V2SwapAttempt 1 3 ''0.1'' EIGEN)]"
proof -
  let ?b = "[GetBalance (signerAddress exampleTrader)]"
  have url: "nonEmpty (if net_id (network exampleToken) = ''ethereum-mainnet''
                   then ETHEREUM_MAINNET_RPC_URL exampleEnv else ETHEREUM_TESTNET_RPC_URL exampleEnv)
             = Some ''https://rpc.example''"
    by (simp add: example_facts)
  have bal: "\<not> parseFloat exampleLib ''1.0'' < exampleAmount"
    by (simp add: exampleLib_def exampleAmount_value)
  \<comment> \<open>the primary venue succeeds\<close>
  have b1: "getEthBalance exampleLib exampleTrader liquidWorld [] = (Inr ''1.0'', ?b)"
    by (rule example_balance) (simp add: liquidWorld_def)
  let ?p1 = "UniswapTrader_swapEthForToken exampleLib exampleTrader liquidWorld
               (address exampleToken) (numberToString exampleLib exampleAmount)
               (case maxSlippage (hybrid_ethereum TRADING_CONFIG) of None \<Rightarrow> 5 | Some s \<Rightarrow> s)
               ([] @ ?b)"
  let ?ok = "\<lparr>success = True, transactionHash = Some ''0xaa'',
             toTokenAmount = Some (AmountOf 200000000000000000000), error = None\<rparr>"
  have p1: "?p1 = (Inr ?ok, snd ?p1)"
    using primary_in_liquidWorld [of 3 ?b] by (simp add: example_facts prod_eq_iff)
  let ?f1 = "SimpleSwapper_swapEthForToken exampleLib exampleTrader liquidWorld
               (address exampleToken) (numberToString exampleLib exampleAmount)
               (case maxSlippage (hybrid_ethereum TRADING_CONFIG) of None \<Rightarrow> 3 | Some s \<Rightarrow> s)
               ([] @ ?b @ snd ?p1 @ [ConsoleLog (V3Failed (error ?ok)), ConsoleLog TryingV2Fallback])"
  obtain r1 where "fst ?f1 = Inr r1"
    using SimpleSwapper_returns by blast
  then have f1: "?f1 = (Inr r1, snd ?f1)"
    by (simp add: prod_eq_iff)
  note liquid = fallback_once_iff_primary_fails
      [OF example_facts(5) example_facts(7) url example_facts(11) example_facts(9) [where b = 1]
          example_facts(12) b1 bal p1 f1, where request = exampleRequest and position = examplePosition]
  \<comment> \<open>the primary venue fails\<close>
  have b2: "getEthBalance exampleLib exampleTrader v2OnlyWorld [] = (Inr ''1.0'', ?b)"
    by (rule example_balance) (simp add: v2OnlyWorld_def liquidWorld_def)
  let ?p2 = "UniswapTrader_swapEthForToken exampleLib exampleTrader v2OnlyWorld
               (address exampleToken) (numberToString exampleLib exampleAmount)
               (case maxSlippage (hybrid_ethereum TRADING_CONFIG) of None \<Rightarrow> 5 | Some s \<Rightarrow> s)
               ([] @ ?b)"
  let ?ko = "\<lparr>success = False, transactionHash = None, toTokenAmount = None,
             error = Some (AfterAttempts 2 (NoLiquidity EIGEN))\<rparr>"
  have "fst (UniswapTrader_swapEthForToken exampleLib exampleTrader v2OnlyWorld EIGEN ''0.1'' 3 ?b)
      = Inr ?ko"
    by (subst primary_without_pool) (simp_all add: v2OnlyWorld_def liquidWorld_def)
  then have p2: "?p2 = (Inr ?ko, snd ?p2)"
    by (simp add: example_facts prod_eq_iff)
  let ?f2 = "SimpleSwapper_swapEthForToken exampleLib exampleTrader v2OnlyWorld
               (address exampleToken) (numberToString exampleLib exampleAmount)
               (case maxSlippage (hybrid_ethereum TRADING_CONFIG) of None \<Rightarrow> 3 | Some s \<Rightarrow> s)
               ([] @ ?b @ snd ?p2 @ [ConsoleLog (V3Failed (error ?ko)), ConsoleLog TryingV2Fallback])"
  obtain r2 where "fst ?f2 = Inr r2"
    using SimpleSwapper_returns by blast
  then have f2: "?f2 = (Inr r2, snd ?f2)"
    by (simp add: prod_eq_iff)
  note dry = fallback_once_iff_primary_fails
      [OF example_facts(5) example_facts(7) url example_facts(11) example_facts(9) [where b = 1]
          example_facts(12) b2 bal p2 f2, where request = exampleRequest and position = examplePosition]
  have "success ?ok" by simp
  with liquid have L: "filter isFallbackEvent
     (snd (executeEthereumNetworkTrade exampleLib TRADING_CONFIG exampleEnv (exampleCollaborators 1)
             liquidWorld exampleRequest exampleToken exampleAmount examplePosition [])) = []"
    by blast
  have "\<not> success ?ko" by simp
  with dry have D: "filter isFallbackStart
       (snd (executeEthereumNetworkTrade exampleLib TRADING_CONFIG exampleEnv (exampleCollaborators 1)
               v2OnlyWorld exampleRequest exampleToken exampleAmount examplePosition []))
     = [ConsoleLog (V2SwapAttempt 1 3 (numberToString exampleLib exampleAmount) (address exampleToken))]"
    by blast
  from L D show ?thesis
    by (simp add: example_facts)
qed

text \<open>
  C6, as amended. When a trade reaches the primary venue and both venues report failure,
  the primary venue's message is \<^verbatim>\<open>After 2 attempts: ...\<close> and the fallback venue's is
  \<^verbatim>\<open>After 3 attempts: ...\<close>; both are written to the console, and the error that
  \<^verbatim>\<open>executeEthereumNetworkTrade\<close> throws is \<^verbatim>\<open>DEX swap failed:\<close> followed by the fallback venue's
  message alone.
\<close>

theorem both_venues_fail:
  assumes "chainType (network tok) = ''ethereum''"
    and "enabled (hybrid_ethereum cfg)"
    and "nonEmpty (if net_id (network tok) = ''ethereum-mainnet''
                   then ETHEREUM_MAINNET_RPC_URL env else ETHEREUM_TESTNET_RPC_URL env) = Some rpcUrl"
    and "nonEmpty (ETHEREUM_PRIVATE_KEY env) = Some privateKey"
    and "connect co rpcUrl privateKey = Inr venue"
    and "nonEmpty (ETHEREUM_WALLET_ADDRESS env) = Some walletAddress"
    and "getEthBalance lib venue w h = (Inr ethBalance, es0)"
    and "\<not> parseFloat lib ethBalance < tradeAmountETH"
    and "UniswapTrader_swapEthForToken lib venue w (address tok) (numberToString lib tradeAmountETH)
           (case maxSlippage (hybrid_ethereum cfg) of None \<Rightarrow> 5 | Some s \<Rightarrow> s) (h @ es0)
         = (Inr primary, es1)"
    and "SimpleSwapper_swapEthForToken lib venue w (address tok) (numberToString lib tradeAmountETH)
           (case maxSlippage (hybrid_ethereum cfg) of None \<Rightarrow> 3 | Some s \<Rightarrow> s)
           (h @ es0 @ es1 @ [ConsoleLog (V3Failed (error primary)), ConsoleLog TryingV2Fallback])
         = (Inr fallback, es2)"
    and "\<not> success primary" and "\<not> success fallback"
  shows "\<exists>e1 e2. error primary = Some (AfterAttempts 2 e1)
           \<and> error fallback = Some (AfterAttempts 3 e2)
           \<and> executeEthereumNetworkTrade lib cfg env co w request tok tradeAmountETH position h =
               (Inl (DexSwapFailed (AfterAttempts 3 e2)),
                es0 @ es1 @ [ConsoleLog (V3Failed (Some (AfterAttempts 2 e1))),
                             ConsoleLog TryingV2Fallback]
                  @ es2 @
                  [ConsoleLog BothFailed, ConsoleLog (V3Error (Some (AfterAttempts 2 e1))),
                   ConsoleLog (V2Error (Some (AfterAttempts 3 e2)))])"
proof -
  obtain e1 where e1: "error primary = Some (AfterAttempts 2 e1)"
    using swapEthForTokenSimple_failure assms(9) assms(11)
    unfolding UniswapTrader_swapEthForToken_def by blast
  obtain e2 where e2: "error fallback = Some (AfterAttempts 3 e2)"
    using SimpleSwapper_failure assms(10) assms(12) by blast
  show ?thesis
    using executeEthereumNetworkTrade_run [OF assms(1-10), where request = request and position = position] assms(11,12) e1 e2
    by simp
qed

lemma both_fail_in_dryWorld:
  "fst (executeEthereumNetworkTrade exampleLib TRADING_CONFIG exampleEnv (exampleCollaborators 1)
          dryWorld exampleRequest exampleToken exampleAmount examplePosition [])
     = Inl (case error \<lparr>success = False, transactionHash = None, toTokenAmount = None,
             error = Some (AfterAttempts 3 (GasEstimationWouldFail
                       (GasEstimationFailed 2 (Thrown ''execution reverted''))))\<rparr> of
              None \<Rightarrow> DexSwapFailedUndefined | Some e \<Rightarrow> DexSwapFailed e)"
proof -
  let ?b = "[GetBalance (signerAddress exampleTrader)]"
  have url: "nonEmpty (if net_id (network exampleToken) = ''ethereum-mainnet''
                   then ETHEREUM_MAINNET_RPC_URL exampleEnv else ETHEREUM_TESTNET_RPC_URL exampleEnv)
             = Some ''https://rpc.example''"
    by (simp add: example_facts)
  have bal: "\<not> parseFloat exampleLib ''1.0'' < exampleAmount"
    by (simp add: exampleLib_def exampleAmount_value)
  have b: "getEthBalance exampleLib exampleTrader dryWorld [] = (Inr ''1.0'', ?b)"
    by (rule example_balance) (simp add: dryWorld_def)
  let ?p = "UniswapTrader_swapEthForToken exampleLib exampleTrader dryWorld
               (address exampleToken) (numberToString exampleLib exampleAmount)
               (case maxSlippage (hybrid_ethereum TRADING_CONFIG) of None \<Rightarrow> 5 | Some s \<Rightarrow> s)
               ([] @ ?b)"
  let ?ko = "\<lparr>success = False, transactionHash = None, toTokenAmount = None,
             error = Some (AfterAttempts 2 (NoLiquidity EIGEN))\<rparr>"
  have "fst (UniswapTrader_swapEthForToken exampleLib exampleTrader dryWorld EIGEN ''0.1'' 3 ?b)
      = Inr ?ko"
    by (subst primary_without_pool) (simp_all add: dryWorld_def)
  then have p: "?p = (Inr ?ko, snd ?p)"
    by (simp add: example_facts prod_eq_iff)
  let ?f = "SimpleSwapper_swapEthForToken exampleLib exampleTrader dryWorld
               (address exampleToken) (numberToString exampleLib exampleAmount)
               (case maxSlippage (hybrid_ethereum TRADING_CONFIG) of None \<Rightarrow> 3 | Some s \<Rightarrow> s)
               ([] @ ?b @ snd ?p @ [ConsoleLog (V3Failed (error ?ko)), ConsoleLog TryingV2Fallback])"
  let ?ko2 = "\<lparr>success = False, transactionHash = None, toTokenAmount = None,
             error = Some (AfterAttempts 3 (GasEstimationWouldFail
                       (GasEstimationFailed 2 (Thrown ''execution reverted''))))\<rparr>"
  have f: "?f = (Inr ?ko2, snd ?f)"
    using fallback_in_dryWorld by (simp add: example_facts prod_eq_iff)
  show ?thesis
    using executeEthereumNetworkTrade_run
      [OF example_facts(5) example_facts(7) url example_facts(11) example_facts(9) [where b = 1]
          example_facts(12) b bal p f, where request = exampleRequest and position = examplePosition]
    by simp
qed


theorem both_venues_fail_witness:
  "fst (executeEthereumNetworkTrade exampleLib TRADING_CONFIG exampleEnv (exampleCollaborators 1)
          dryWorld exampleRequest exampleToken exampleAmount examplePosition [])
     = Inl (DexSwapFailed (AfterAttempts 3 (GasEstimationWouldFail
              (GasEstimationFailed 2 (Thrown ''execution reverted'')))))"
proof -
  let ?b = "[GetBalance (signerAddress exampleTrader)]"
  have url: "nonEmpty (if net_id (network exampleToken) = ''ethereum-mainnet''
                   then ETHEREUM_MAINNET_RPC_URL exampleEnv else ETHEREUM_TESTNET_RPC_URL exampleEnv)
             = Some ''https://rpc.example''"
    by (simp add: example_facts)
  have bal: "\<not> parseFloat exampleLib ''1.0'' < exampleAmount"
    by (simp add: exampleLib_def exampleAmount_value)
  have b: "getEthBalance exampleLib exampleTrader dryWorld [] = (Inr ''1.0'', ?b)"
    by (rule example_balance) (simp add: dryWorld_def)
  let ?p = "UniswapTrader_swapEthForToken exampleLib exampleTrader dryWorld
               (address exampleToken) (numberToString exampleLib exampleAmount)
               (case maxSlippage (hybrid_ethereum TRADING_CONFIG) of None \<Rightarrow> 5 | Some s \<Rightarrow> s)
               ([] @ ?b)"
  let ?ko = "\<lparr>success = False, transactionHash = None, toTokenAmount = None,
             error = Some (AfterAttempts 2 (NoLiquidity EIGEN))\<rparr>"
  have "fst (UniswapTrader_swapEthForToken exampleLib exampleTrader dryWorld EIGEN ''0.1'' 3 ?b)
      = Inr ?ko"
    by (subst primary_without_pool) (simp_all add: dryWorld_def)
  then have p: "?p = (Inr ?ko, snd ?p)"
    by (simp add: example_facts prod_eq_iff)
  let ?f = "SimpleSwapper_swapEthForToken exampleLib exampleTrader dryWorld
               (address exampleToken) (numberToString exampleLib exampleAmount)
               (case maxSlippage (hybrid_ethereum TRADING_CONFIG) of None \<Rightarrow> 3 | Some s \<Rightarrow> s)
               ([] @ ?b @ snd ?p @ [ConsoleLog (V3Failed (error ?ko)), ConsoleLog TryingV2Fallback])"
  let ?ko2 = "\<lparr>success = False, transactionHash = None, toTokenAmount = None,
             error = Some (AfterAttempts 3 (GasEstimationWouldFail
                       (GasEstimationFailed 2 (Thrown ''execution reverted''))))\<rparr>"
  have f: "?f = (Inr ?ko2, snd ?f)"
    using fallback_in_dryWorld by (simp add: example_facts prod_eq_iff)
  have n1: "\<not> success ?ko" and n2: "\<not> success ?ko2" by simp_all
  from both_venues_fail
      [OF example_facts(5) example_facts(7) url example_facts(11) example_facts(9) [where b = 1]
          example_facts(12) b bal p f n1 n2, where request = exampleRequest
          and position = examplePosition]
  show ?thesis by auto
qed

text \<open>
  The claim as stated fails. In \<open>dryWorld\<close> the primary venue's message is
  \<^verbatim>\<open>After 2 attempts: No liquidity found ...\<close>; the error the orchestrator throws holds the
  fallback venue's gas-estimation message and no part of the primary venue's.
\<close>

theorem thrown_error_omits_primary_message:
  "fst (UniswapTrader_swapEthForToken exampleLib exampleTrader dryWorld EIGEN ''0.1'' 3
          [GetBalance (signerAddress exampleTrader)])
     = Inr \<lparr>success = False, transactionHash = None, toTokenAmount = None,
             error = Some (AfterAttempts 2 (NoLiquidity EIGEN))\<rparr>
   \<and> fst (executeEthereumNetworkTrade exampleLib TRADING_CONFIG exampleEnv (exampleCollaborators 1)
          dryWorld exampleRequest exampleToken exampleAmount examplePosition [])
     = Inl (DexSwapFailed (AfterAttempts 3 (GasEstimationWouldFail
              (GasEstimationFailed 2 (Thrown ''execution reverted'')))))
   \<and> \<not> mentions (DexSwapFailed (AfterAttempts 3 (GasEstimationWouldFail
              (GasEstimationFailed 2 (Thrown ''execution reverted'')))))
          (AfterAttempts 2 (NoLiquidity EIGEN))
   \<and> \<not> mentions (DexSwapFailed (AfterAttempts 3 (GasEstimationWouldFail
              (GasEstimationFailed 2 (Thrown ''execution reverted'')))))
          (NoLiquidity EIGEN)"
proof -
  have "fst (UniswapTrader_swapEthForToken exampleLib exampleTrader dryWorld EIGEN ''0.1'' 3
          [GetBalance (signerAddress exampleTrader)])
     = Inr \<lparr>success = False, transactionHash = None, toTokenAmount = None,
             error = Some (AfterAttempts 2 (NoLiquidity EIGEN))\<rparr>"
    by (subst primary_without_pool) (simp_all add: dryWorld_def)
  then show ?thesis
    by (simp add: both_fail_in_dryWorld)
qed

subsection \<open>Trade sizing\<close>

text \<open>
  C8, as amended. Take a trade outside testing mode whose token resolves, whose wallet
  balance is \<open>B\<close> and whose network family is configured and enabled. If \<open>B\<close> is below the
  family's minimum, or, for the Ethereum family, below the DEX minimum 0.0015, the
  orchestrator marks the tweet as processed and returns: it saves no position and starts no
  trade. Otherwise the amount it commits is the larger of \<^verbatim>\<open>B * 0.10\<close> (a product of
  doubles) and the family's minimum, and for the Ethereum family the larger of that and
  0.0015. That amount is the \<^verbatim>\<open>amount\<close> of the position, the amount handed to the
  family's trade function, and, with four decimals, the amount of the toast; the run is the
  toast followed by the run of the trade function, and when that throws, by the position
  saved as failed and the error toast.
\<close>

theorem executeTrade_sizing:
  assumes "TESTING env \<noteq> Some ''true''"
    and "resolveTokenAddress co (req_token request) h = (Inr \<lparr>found = True, token = Some tok\<rparr>, es1)"
    and "walletBalanceETH co (net_id (network tok)) (h @ es1) = (Inr B, es2)"
    and "hybrid cfg (chainType (network tok)) = Some networkConfig"
    and "enabled networkConfig"
  shows "executeTrade lib cfg env co w request h =
     (let ethereum = (chainType (network tok) = ''ethereum'');
          minRequired = minTradeAmountETH networkConfig;
          tenth = number_times B (roundToDouble (1 / 10));
          committed = (if ethereum then max (max tenth minRequired) dexMinimum
                       else max tenth minRequired);
          position =
            \<lparr>position_id = generateId co (h @ es1 @ es2), position_token = req_token request,
             amount = committed, purchasePrice = getTokenPrice lib (req_token request),
             purchaseTime = dateNow w (h @ es1 @ es2), tweet = req_tweet request,
             influencer = req_influencer request, position_status = Holding\<rparr>;
          toast = InfoToast (req_token request) (toFixed lib committed 4);
          trade =
            (if ethereum
             then executeEthereumNetworkTrade lib cfg env co w request tok committed position
                    (h @ es1 @ es2 @ [toast])
             else executeBaseNetworkTrade co request tok committed position
                    (h @ es1 @ es2 @ [toast]))
      in if B < minRequired \<or> ethereum \<and> B < dexMinimum
         then (Inr (), es1 @ es2 @ [MarkTweetAsProcessed (req_tweetId request)])
         else (case fst trade of
                 Inr u \<Rightarrow> (Inr (), es1 @ es2 @ [toast] @ snd trade)
               | Inl e \<Rightarrow>
                   (Inl e, es1 @ es2 @ [toast] @ snd trade @
                      [SavePosition (position\<lparr>position_status := Failed\<rparr>),
                       ErrorToast (req_token request) e])))"
proof -
  from assms(4) have net: "chainType (network tok) = ''base'' \<or> chainType (network tok) = ''ethereum''"
    by (auto simp: hybrid_def split: if_splits)
  show ?thesis
    using assms net
    by (auto simp: executeTrade_def io_defs Let_def split: prod.splits sum.splits)
qed

text \<open>
  Scenario A of the specification (balance 1.0, minimum 0.001): the amount is the number
  \<^verbatim>\<open>0.1\<close>; it is announced as \<^verbatim>\<open>0.1000\<close>, handed to the primary venue as the string
  \<^verbatim>\<open>0.1\<close>, swapped as \<open>10 ^ 17\<close> wei and saved in the position. Scenario B (balance
  0.0005): skipped, nothing but the tweet marked as processed.
\<close>

theorem executeTrade_sizing_witness:
  "executeTrade exampleLib TRADING_CONFIG exampleEnv (exampleCollaborators 1) liquidWorld
        exampleRequest [] =
     (Inr (),
      [InfoToast ''EIGEN'' ''0.1000'',
       GetBalance (signerAddress exampleTrader),
       ConsoleLog (SimpleSwapAttempt 1 2 ''0.1'' EIGEN),
       GetBalance (signerAddress exampleTrader),
       QuoteExactInputSingle WETH_ADDRESS EIGEN 3000 100000000000000000,
       EstimateGas
         (ExactInputSingle
            \<lparr>tokenIn = WETH_ADDRESS, tokenOut = EIGEN, fee = 3000,
             recipient = signerAddress exampleTrader, deadline = 1700000600,
             amountIn = 100000000000000000, amountOutMinimum = 190000000000000000000,
             sqrtPriceLimitX96 = 0\<rparr>)
         100000000000000000,
       GetFeeData, GetBlock,
       SendTransaction
         (ExactInputSingle
            \<lparr>tokenIn = WETH_ADDRESS, tokenOut = EIGEN, fee = 3000,
             recipient = signerAddress exampleTrader, deadline = 1700000600,
             amountIn = 100000000000000000, amountOutMinimum = 190000000000000000000,
             sqrtPriceLimitX96 = 0\<rparr>)
         \<lparr>tx_value = 100000000000000000, tx_gasLimit = 180000,
          tx_maxFeePerGas = Some 14400000000, tx_maxPriorityFeePerGas = Some 2400000000,
          tx_gasPrice = None\<rparr>,
       WaitForReceipt ''0xaa'',
       TradeBuyToast ''EIGEN'' ''0.1000'' (Some ''0xaa''),
       SavePosition examplePosition])
   \<and> amount examplePosition = roundToDouble (1 / 10)
   \<and> executeTrade exampleLib TRADING_CONFIG exampleEnv
        (exampleCollaborators (roundToDouble (5 / 10000))) liquidWorld exampleRequest [] =
       (Inr (), [MarkTweetAsProcessed ''1''])"
proof -
  have a: "TESTING exampleEnv \<noteq> Some ''true''"
    by (simp add: exampleEnv_def)
  have b: "resolveTokenAddress (exampleCollaborators x) (req_token exampleRequest) [] =
      (Inr \<lparr>found = True, token = Some exampleToken\<rparr>, [])" for x
    by (simp add: exampleCollaborators_def io_defs)
  have c: "walletBalanceETH (exampleCollaborators x) (net_id (network exampleToken)) ([] @ []) =
      (Inr x, [])" for x
    by (simp add: exampleCollaborators_def io_defs)
  have d: "hybrid TRADING_CONFIG (chainType (network exampleToken)) = Some (hybrid_ethereum TRADING_CONFIG)"
    by (simp add: hybrid_def example_facts)
  note A = executeTrade_sizing [OF a b [of 1] c [of 1] d example_facts(7),
      where lib = exampleLib and w = liquidWorld]
  note B = executeTrade_sizing [OF a b [of "roundToDouble (5 / 10000)"]
      c [of "roundToDouble (5 / 10000)"] d example_facts(7),
      where lib = exampleLib and w = liquidWorld]
  have m: "minTradeAmountETH (hybrid_ethereum TRADING_CONFIG) = roundToDouble (1 / 1000)"
    by (simp add: TRADING_CONFIG_def)
  have tenth: "number_times 1 (roundToDouble (1 / 10)) = exampleAmount"
    by code_simp
  have larger: "max (max exampleAmount (roundToDouble (1 / 1000))) dexMinimum = exampleAmount"
    by code_simp
  have enough: "\<not> 1 < roundToDouble (1 / 1000)" "\<not> 1 < dexMinimum"
    by code_simp+
  have low: "roundToDouble (1 / 2000) < roundToDouble (1 / 1000)"
    by code_simp
  have shown: "toFixed exampleLib exampleAmount 4 = ''0.1000''"
    by (simp add: exampleLib_def exampleAmount_def)
  have req: "req_token exampleRequest = ''EIGEN''" "req_tweet exampleRequest = ''EIGEN looks strong''"
    "req_influencer exampleRequest = ''jt_rose''" "req_tweetId exampleRequest = ''1''"
    by (simp_all add: exampleRequest_def)
  have position:
    "\<lparr>position_id = generateId (exampleCollaborators 1) [], position_token = ''EIGEN'',
      amount = exampleAmount, purchasePrice = getTokenPrice exampleLib ''EIGEN'',
      purchaseTime = dateNow liquidWorld [], tweet = ''EIGEN looks strong'',
      influencer = ''jt_rose'', position_status = Holding\<rparr> = examplePosition"
    by (simp add: examplePosition_def exampleCollaborators_def liquidWorld_def
        getTokenPrice_def exampleLib_def)
  have trade: "executeEthereumNetworkTrade exampleLib TRADING_CONFIG exampleEnv (exampleCollaborators 1)
      liquidWorld exampleRequest exampleToken exampleAmount examplePosition
      [InfoToast ''EIGEN'' ''0.1000''] =
     (Inr (),
      [GetBalance (signerAddress exampleTrader),
       ConsoleLog (SimpleSwapAttempt 1 2 ''0.1'' EIGEN),
       GetBalance (signerAddress exampleTrader),
       QuoteExactInputSingle WETH_ADDRESS EIGEN 3000 100000000000000000,
       EstimateGas
         (ExactInputSingle
            \<lparr>tokenIn = WETH_ADDRESS, tokenOut = EIGEN, fee = 3000,
             recipient = signerAddress exampleTrader, deadline = 1700000600,
             amountIn = 100000000000000000, amountOutMinimum = 190000000000000000000,
             sqrtPriceLimitX96 = 0\<rparr>)
         100000000000000000,
       GetFeeData, GetBlock,
       SendTransaction
         (ExactInputSingle
            \<lparr>tokenIn = WETH_ADDRESS, tokenOut = EIGEN, fee = 3000,
             recipient = signerAddress exampleTrader, deadline = 1700000600,
             amountIn = 100000000000000000, amountOutMinimum = 190000000000000000000,
             sqrtPriceLimitX96 = 0\<rparr>)
         \<lparr>tx_value = 100000000000000000, tx_gasLimit = 180000,
          tx_maxFeePerGas = Some 14400000000, tx_maxPriorityFeePerGas = Some 2400000000,
          tx_gasPrice = None\<rparr>,
       WaitForReceipt ''0xaa'',
       TradeBuyToast ''EIGEN'' ''0.1000'' (Some ''0xaa''),
       SavePosition examplePosition])"
    by code_simp
  from A have "executeTrade exampleLib TRADING_CONFIG exampleEnv (exampleCollaborators 1) liquidWorld
        exampleRequest [] =
     (Inr (), InfoToast ''EIGEN'' ''0.1000'' #
        snd (executeEthereumNetworkTrade exampleLib TRADING_CONFIG exampleEnv (exampleCollaborators 1)
      liquidWorld exampleRequest exampleToken exampleAmount examplePosition
      [InfoToast ''EIGEN'' ''0.1000'']))"
    by (simp add: Let_def example_facts m tenth larger enough shown position trade req)
  moreover from B have "executeTrade exampleLib TRADING_CONFIG exampleEnv
      (exampleCollaborators (roundToDouble (5 / 10000))) liquidWorld exampleRequest [] =
      (Inr (), [MarkTweetAsProcessed ''1''])"
    by (simp add: Let_def example_facts m low req)
  moreover have "amount examplePosition = roundToDouble (1 / 10)"
    by (simp add: examplePosition_def exampleAmount_def)
  ultimately show ?thesis
    by (simp add: trade)
qed

text \<open>
  The claim as stated fails for the Ethereum family between the two minima: a balance of
  0.0012 is not below the network minimum 0.001, and the claim's formula gives 0.0015, but
  the orchestrator commits nothing: it marks the tweet as processed and returns.
\<close>

theorem executeTrade_skips_between_minima:
  "chainType (network exampleToken) = ''ethereum''
   \<and> minTradeAmountETH (hybrid_ethereum TRADING_CONFIG) \<le> roundToDouble (12 / 10000)
   \<and> roundToDouble (12 / 10000) < dexMinimum
   \<and> executeTrade exampleLib TRADING_CONFIG exampleEnv
       (exampleCollaborators (roundToDouble (12 / 10000))) liquidWorld exampleRequest []
     = (Inr (), [MarkTweetAsProcessed ''1''])"
  by code_simp

end
